theory Spec2Isabelle
  imports Main "HOL-Library.Word"
begin

unbundle bit_operations_syntax

section \<open>The admin-modules gateway\<close>

text \<open>
  A shallow embedding of the edge function in \<^verbatim>\<open>src/src/pages/DivisionDetail.tsx\<close>
  (the third document of that file, lines 641 to 887): \<^verbatim>\<open>verifyAdminToken\<close> and the
  request handler passed to \<^verbatim>\<open>serve\<close>, with its nested \<^verbatim>\<open>verifyProgramAccess\<close>.

  Strings are sequences of 8-bit characters. That is exact for the token (a header value)
  and for the text \<^verbatim>\<open>atob\<close> returns; a JSON string with a code unit above U+00FF and a
  service key outside Latin-1 are not represented. Numbers are exact decimals, not IEEE
  doubles. \<^verbatim>\<open>console.log\<close> and \<^verbatim>\<open>console.error\<close> are left out.
\<close>

subsection \<open>JSON values\<close>

text \<open>
  \<open>JNum m e\<close> is the number \<open>m * 10 ^ e\<close>. An object keeps its members in the order of
  the text; a later member of the same name wins, as in \<^verbatim>\<open>JSON.parse\<close>.
  \<^verbatim>\<open>undefined\<close> is \<open>None\<close> of \<open>json option\<close>.
\<close>

datatype json =
    JNull
  | JBool bool
  | JNum int int
  | JStr string
  | JArr "json list"
  | JObj "(string \<times> json) list"

datatype js_error = TypeError | SyntaxError | InvalidCharacterError

definition num_lt :: "int \<Rightarrow> int \<Rightarrow> int \<Rightarrow> bool" where
  \<comment> \<open>\<open>m * 10 ^ e < n\<close>, on integers\<close>
  "num_lt m e n = (if 0 \<le> e then m * 10 ^ nat e < n else m < n * 10 ^ nat (- e))"

definition truthy :: "json option \<Rightarrow> bool" where
  \<comment> \<open>JavaScript's ToBoolean on a JSON value or \<^verbatim>\<open>undefined\<close>\<close>
  "truthy v =
     (case v of
        None \<Rightarrow> False
      | Some JNull \<Rightarrow> False
      | Some (JBool b) \<Rightarrow> b
      | Some (JNum m e) \<Rightarrow> m \<noteq> 0
      | Some (JStr s) \<Rightarrow> s \<noteq> []
      | Some (JArr xs) \<Rightarrow> True
      | Some (JObj kvs) \<Rightarrow> True)"

definition get_prop :: "json option \<Rightarrow> string \<Rightarrow> js_error + json option" where
  \<comment> \<open>\<^verbatim>\<open>v.k\<close> for the member names the handler reads: a TypeError on \<^verbatim>\<open>null\<close> and
      \<^verbatim>\<open>undefined\<close>, the member of an object, \<^verbatim>\<open>undefined\<close> on every other value\<close>
  "get_prop v k =
     (case v of
        None \<Rightarrow> Inl TypeError
      | Some JNull \<Rightarrow> Inl TypeError
      | Some (JObj kvs) \<Rightarrow> Inr (map_of (rev kvs) k)
      | Some _ \<Rightarrow> Inr None)"

subsection \<open>\<^verbatim>\<open>JSON.parse\<close>\<close>

definition is_ws :: "char \<Rightarrow> bool" where
  "is_ws c = (c = CHR '' '' \<or> c = CHR 0x09 \<or> c = CHR 0x0A \<or> c = CHR 0x0D)"

definition is_digit :: "char \<Rightarrow> bool" where
  "is_digit c = (48 \<le> (of_char c :: nat) \<and> (of_char c :: nat) \<le> 57)"

definition digits_val :: "string \<Rightarrow> int" where
  "digits_val ds = foldl (\<lambda>n c. 10 * n + (of_char c - 48)) 0 ds"

definition hex_val :: "char \<Rightarrow> nat option" where
  "hex_val c =
     (let n = (of_char c :: nat) in
      if 48 \<le> n \<and> n \<le> 57 then Some (n - 48)
      else if 65 \<le> n \<and> n \<le> 70 then Some (n - 55)
      else if 97 \<le> n \<and> n \<le> 102 then Some (n - 87)
      else None)"

definition parse_exponent :: "string \<Rightarrow> (int \<times> string) option" where
  \<comment> \<open>after the \<^verbatim>\<open>e\<close>: an optional sign and at least one digit\<close>
  "parse_exponent cs =
     (let neg = (cs \<noteq> [] \<and> hd cs = CHR ''-'');
          cs1 = (if cs \<noteq> [] \<and> (hd cs = CHR ''-'' \<or> hd cs = CHR ''+'') then tl cs else cs);
          ds = takeWhile is_digit cs1
      in if ds = [] then None
         else Some ((if neg then - digits_val ds else digits_val ds),
                    dropWhile is_digit cs1))"

definition parse_number :: "string \<Rightarrow> (json \<times> string) option" where
  "parse_number cs =
     (let neg = (cs \<noteq> [] \<and> hd cs = CHR ''-'');
          cs1 = (if neg then tl cs else cs);
          ip = takeWhile is_digit cs1;
          cs2 = dropWhile is_digit cs1
      in if ip = [] \<or> (1 < length ip \<and> hd ip = CHR ''0'') then None
         else
           let dot = (cs2 \<noteq> [] \<and> hd cs2 = CHR ''.'');
               fp = (if dot then takeWhile is_digit (tl cs2) else []);
               cs3 = (if dot then dropWhile is_digit (tl cs2) else cs2);
               m = digits_val (ip @ fp);
               m' = (if neg then - m else m)
           in if dot \<and> fp = [] then None
              else if cs3 \<noteq> [] \<and> (hd cs3 = CHR ''e'' \<or> hd cs3 = CHR ''E'') then
                (case parse_exponent (tl cs3) of
                   None \<Rightarrow> None
                 | Some (x, cs4) \<Rightarrow> Some (JNum m' (x - int (length fp)), cs4))
              else Some (JNum m' (- int (length fp)), cs3))"

fun parse_chars :: "string \<Rightarrow> string \<Rightarrow> (string \<times> string) option" where
  \<comment> \<open>the characters of a string after its opening quote, up to the closing one\<close>
  "parse_chars acc [] = None"
| "parse_chars acc (c # cs) =
     (if c = CHR 0x22 then Some (rev acc, cs)
      else if (of_char c :: nat) < 32 then None
      else if c = CHR 0x5C then
        (case cs of
           [] \<Rightarrow> None
         | e # r \<Rightarrow>
             if e = CHR 0x22 \<or> e = CHR 0x5C \<or> e = CHR ''/'' then parse_chars (e # acc) r
             else if e = CHR ''b'' then parse_chars (CHR 0x08 # acc) r
             else if e = CHR ''f'' then parse_chars (CHR 0x0C # acc) r
             else if e = CHR ''n'' then parse_chars (CHR 0x0A # acc) r
             else if e = CHR ''r'' then parse_chars (CHR 0x0D # acc) r
             else if e = CHR ''t'' then parse_chars (CHR 0x09 # acc) r
             else if e = CHR ''u'' then
               (case r of
                  h1 # h2 # h3 # h4 # r' \<Rightarrow>
                    (case (hex_val h1, hex_val h2, hex_val h3, hex_val h4) of
                       (Some a, Some b, Some c', Some d) \<Rightarrow>
                         if a = 0 \<and> b = 0 then parse_chars (char_of (16 * c' + d) # acc) r'
                         else None
                     | _ \<Rightarrow> None)
                | _ \<Rightarrow> None)
             else None)
      else parse_chars (c # acc) cs)"

definition starts_with :: "string \<Rightarrow> string \<Rightarrow> bool" where
  "starts_with p cs = (take (length p) cs = p)"

text \<open>
  The value parser is a recursive descent with a fuel argument; every recursive call
  follows at least one consumed character, so \<open>2 * length s + 2\<close> is never used up.
\<close>

fun parse_value :: "nat \<Rightarrow> string \<Rightarrow> (json \<times> string) option"
  and parse_elems :: "nat \<Rightarrow> json list \<Rightarrow> string \<Rightarrow> (json \<times> string) option"
  and parse_members :: "nat \<Rightarrow> (string \<times> json) list \<Rightarrow> string \<Rightarrow> (json \<times> string) option"
where
  "parse_value 0 cs = None"
| "parse_value (Suc n) cs =
     (let cs = dropWhile is_ws cs in
      if starts_with ''null'' cs then Some (JNull, drop 4 cs)
      else if starts_with ''true'' cs then Some (JBool True, drop 4 cs)
      else if starts_with ''false'' cs then Some (JBool False, drop 5 cs)
      else if starts_with [CHR 0x22] cs then
        (case parse_chars [] (tl cs) of
           None \<Rightarrow> None
         | Some (s, r) \<Rightarrow> Some (JStr s, r))
      else if starts_with ''['' cs then
        (let r = dropWhile is_ws (tl cs) in
         if starts_with '']'' r then Some (JArr [], tl r) else parse_elems n [] r)
      else if starts_with ''{'' cs then
        (let r = dropWhile is_ws (tl cs) in
         if starts_with ''}'' r then Some (JObj [], tl r) else parse_members n [] r)
      else parse_number cs)"
| "parse_elems 0 acc cs = None"
| "parse_elems (Suc n) acc cs =
     (case parse_value n cs of
        None \<Rightarrow> None
      | Some (v, r) \<Rightarrow>
          (let r = dropWhile is_ws r in
           if starts_with '','' r then parse_elems n (v # acc) (tl r)
           else if starts_with '']'' r then Some (JArr (rev (v # acc)), tl r)
           else None))"
| "parse_members 0 acc cs = None"
| "parse_members (Suc n) acc cs =
     (let cs = dropWhile is_ws cs in
      if starts_with [CHR 0x22] cs then
        (case parse_chars [] (tl cs) of
           None \<Rightarrow> None
         | Some (k, r) \<Rightarrow>
             (let r = dropWhile is_ws r in
              if starts_with '':'' r then
                (case parse_value n (tl r) of
                   None \<Rightarrow> None
                 | Some (v, r') \<Rightarrow>
                     (let r' = dropWhile is_ws r' in
                      if starts_with '','' r' then parse_members n ((k, v) # acc) (tl r')
                      else if starts_with ''}'' r' then Some (JObj (rev ((k, v) # acc)), tl r')
                      else None))
              else None))
      else None)"

definition json_parse :: "string \<Rightarrow> json option" where
  \<comment> \<open>\<open>None\<close> is the SyntaxError\<close>
  "json_parse s =
     (case parse_value (2 * length s + 2) s of
        None \<Rightarrow> None
      | Some (v, r) \<Rightarrow> if dropWhile is_ws r = [] then Some v else None)"

subsection \<open>\<^verbatim>\<open>String.prototype.split\<close>, \<^verbatim>\<open>atob\<close> and \<^verbatim>\<open>TextEncoder\<close>\<close>

fun split_dot :: "string \<Rightarrow> string list" where
  \<comment> \<open>\<^verbatim>\<open>token.split(".")\<close>: every segment, the empty ones too\<close>
  "split_dot [] = [[]]"
| "split_dot (c # cs) =
     (if c = CHR ''.'' then [] # split_dot cs
      else (case split_dot cs of [] \<Rightarrow> [[c]] | x # xs \<Rightarrow> (c # x) # xs))"

definition segment :: "string list \<Rightarrow> nat \<Rightarrow> string option" where
  \<comment> \<open>array destructuring: \<^verbatim>\<open>undefined\<close> past the end\<close>
  "segment segs i = (if i < length segs then Some (segs ! i) else None)"

definition b64_alphabet :: string where
  "b64_alphabet = ''ABCDEFGHIJKLMNOPQRSTUVWXYZabcdefghijklmnopqrstuvwxyz0123456789+/''"

definition b64_index :: "char \<Rightarrow> nat option" where
  "b64_index c = map_of (zip b64_alphabet [0..<64]) c"

definition is_ascii_ws :: "char \<Rightarrow> bool" where
  "is_ascii_ws c =
     (c = CHR '' '' \<or> c = CHR 0x09 \<or> c = CHR 0x0A \<or> c = CHR 0x0C \<or> c = CHR 0x0D)"

definition strip_padding :: "string \<Rightarrow> string" where
  \<comment> \<open>one or two \<^verbatim>\<open>=\<close> at the end are removed when the length is a multiple of 4\<close>
  "strip_padding d =
     (if length d mod 4 \<noteq> 0 then d
      else if d \<noteq> [] \<and> last d = CHR ''='' then
        (if butlast d \<noteq> [] \<and> last (butlast d) = CHR ''='' then butlast (butlast d)
         else butlast d)
      else d)"

fun sextets_bytes :: "nat list \<Rightarrow> string" where
  "sextets_bytes (a # b # c # d # r) =
     char_of (a * 4 + b div 16) # char_of ((b mod 16) * 16 + c div 4)
       # char_of ((c mod 4) * 64 + d) # sextets_bytes r"
| "sextets_bytes [a, b, c] = [char_of (a * 4 + b div 16), char_of ((b mod 16) * 16 + c div 4)]"
| "sextets_bytes [a, b] = [char_of (a * 4 + b div 16)]"
| "sextets_bytes _ = []"

fun sextets :: "string \<Rightarrow> nat list option" where
  "sextets [] = Some []"
| "sextets (c # cs) =
     (case b64_index c of
        None \<Rightarrow> None
      | Some v \<Rightarrow> (case sextets cs of None \<Rightarrow> None | Some vs \<Rightarrow> Some (v # vs)))"

definition atob :: "string \<Rightarrow> string option" where
  \<comment> \<open>the forgiving base64 decode; \<open>None\<close> is the InvalidCharacterError\<close>
  "atob s =
     (let d = strip_padding (filter (\<lambda>c. \<not> is_ascii_ws c) s) in
      if length d mod 4 = 1 then None
      else (case sextets d of None \<Rightarrow> None | Some vs \<Rightarrow> Some (sextets_bytes vs)))"

fun utf8_encode :: "string \<Rightarrow> nat list" where
  \<comment> \<open>\<^verbatim>\<open>TextEncoder.encode\<close> on code units below 256\<close>
  "utf8_encode [] = []"
| "utf8_encode (c # cs) =
     (if (of_char c :: nat) < 128 then of_char c # utf8_encode cs
      else (192 + of_char c div 64) # (128 + of_char c mod 64) # utf8_encode cs)"

subsection \<open>SHA-256\<close>

text \<open>
  \<^verbatim>\<open>crypto.subtle.digest("SHA-256", bytes)\<close>, after FIPS 180-4. The round
  constants and the initial hash value are the standard's, written in decimal.
\<close>

type_synonym u32 = "32 word"

type_synonym sha_state = "u32 \<times> u32 \<times> u32 \<times> u32 \<times> u32 \<times> u32 \<times> u32 \<times> u32"

definition rotr :: "nat \<Rightarrow> u32 \<Rightarrow> u32" where
  "rotr n x = drop_bit n x OR push_bit (32 - n) x"

definition ch :: "u32 \<Rightarrow> u32 \<Rightarrow> u32 \<Rightarrow> u32" where
  "ch x y z = (x AND y) XOR (NOT x AND z)"

definition maj :: "u32 \<Rightarrow> u32 \<Rightarrow> u32 \<Rightarrow> u32" where
  "maj x y z = (x AND y) XOR (x AND z) XOR (y AND z)"

definition bsig0 :: "u32 \<Rightarrow> u32" where
  "bsig0 x = rotr 2 x XOR rotr 13 x XOR rotr 22 x"

definition bsig1 :: "u32 \<Rightarrow> u32" where
  "bsig1 x = rotr 6 x XOR rotr 11 x XOR rotr 25 x"

definition ssig0 :: "u32 \<Rightarrow> u32" where
  "ssig0 x = rotr 7 x XOR rotr 18 x XOR drop_bit 3 x"

definition ssig1 :: "u32 \<Rightarrow> u32" where
  "ssig1 x = rotr 17 x XOR rotr 19 x XOR drop_bit 10 x"

definition sha_k :: "u32 list" where
  "sha_k = [
    1116352408, 1899447441, 3049323471, 3921009573, 961987163, 1508970993, 2453635748, 2870763221,
    3624381080, 310598401, 607225278, 1426881987, 1925078388, 2162078206, 2614888103, 3248222580,
    3835390401, 4022224774, 264347078, 604807628, 770255983, 1249150122, 1555081692, 1996064986,
    2554220882, 2821834349, 2952996808, 3210313671, 3336571891, 3584528711, 113926993, 338241895,
    666307205, 773529912, 1294757372, 1396182291, 1695183700, 1986661051, 2177026350, 2456956037,
    2730485921, 2820302411, 3259730800, 3345764771, 3516065817, 3600352804, 4094571909, 275423344,
    430227734, 506948616, 659060556, 883997877, 958139571, 1322822218, 1537002063, 1747873779,
    1955562222, 2024104815, 2227730452, 2361852424, 2428436474, 2756734187, 3204031479, 3329325298]"

definition sha_h0 :: sha_state where
  "sha_h0 = (1779033703, 3144134277, 1013904242, 2773480762,
             1359893119, 2600822924, 528734635, 1541459225)"

definition temp1 :: "u32 \<Rightarrow> u32 \<Rightarrow> u32 \<Rightarrow> u32 \<Rightarrow> u32 \<Rightarrow> u32 \<Rightarrow> u32" where
  "temp1 k w e f g h = h + bsig1 e + ch e f g + k + w"

definition temp2 :: "u32 \<Rightarrow> u32 \<Rightarrow> u32 \<Rightarrow> u32" where
  "temp2 a b c = bsig0 a + maj a b c"

fun sha_round :: "u32 \<Rightarrow> u32 \<Rightarrow> sha_state \<Rightarrow> sha_state" where
  "sha_round k w (a, b, c, d, e, f, g, h) =
     (temp1 k w e f g h + temp2 a b c, a, b, c, d + temp1 k w e f g h, e, f, g)"

definition next_word :: "u32 list \<Rightarrow> u32" where
  \<comment> \<open>the message schedule, on the window of the last 16 words\<close>
  "next_word w = ssig1 (w ! 14) + w ! 9 + ssig0 (w ! 1) + w ! 0"

fun rounds :: "u32 list \<Rightarrow> u32 list \<Rightarrow> sha_state \<Rightarrow> sha_state" where
  "rounds [] w s = s"
| "rounds (k # ks) w s = rounds ks (tl w @ [next_word w]) (sha_round k (hd w) s)"

fun add_state :: "sha_state \<Rightarrow> sha_state \<Rightarrow> sha_state" where
  "add_state (a, b, c, d, e, f, g, h) (a', b', c', d', e', f', g', h') =
     (a + a', b + b', c + c', d + d', e + e', f + f', g + g', h + h')"

definition compress :: "sha_state \<Rightarrow> u32 list \<Rightarrow> sha_state" where
  "compress s w = add_state s (rounds sha_k w s)"

fun be_words :: "nat list \<Rightarrow> u32 list" where
  "be_words (a # b # c # d # bs) =
     of_nat (((a * 256 + b) * 256 + c) * 256 + d) # be_words bs"
| "be_words _ = []"

definition sha_pad :: "nat list \<Rightarrow> nat list" where
  "sha_pad bs =
     bs @ [128] @ replicate ((119 - length bs mod 64) mod 64) 0
        @ map (\<lambda>i. (8 * length bs div 256 ^ (7 - i)) mod 256) [0..<8]"

fun blocks :: "nat \<Rightarrow> sha_state \<Rightarrow> u32 list \<Rightarrow> sha_state" where
  "blocks 0 s ws = s"
| "blocks (Suc n) s ws = blocks n (compress s (take 16 ws)) (drop 16 ws)"

definition word_bytes :: "u32 \<Rightarrow> nat list" where
  "word_bytes w = map (\<lambda>i. (unat w div 256 ^ (3 - i)) mod 256) [0..<4]"

fun state_bytes :: "sha_state \<Rightarrow> nat list" where
  "state_bytes (a, b, c, d, e, f, g, h) = concat (map word_bytes [a, b, c, d, e, f, g, h])"

definition sha256 :: "nat list \<Rightarrow> nat list" where
  "sha256 bs =
     state_bytes (blocks (length (sha_pad bs) div 64) sha_h0 (be_words (sha_pad bs)))"

definition hex_chars :: string where
  "hex_chars = ''0123456789abcdef''"

definition hex_digit :: "nat \<Rightarrow> char" where
  "hex_digit n = hex_chars ! n"

definition hex_byte :: "nat \<Rightarrow> string" where
  \<comment> \<open>\<^verbatim>\<open>b.toString(16).padStart(2, "0")\<close> for a byte\<close>
  "hex_byte b = [hex_digit (b div 16), hex_digit (b mod 16)]"

definition expected_signature :: "string \<Rightarrow> string \<Rightarrow> string" where
  \<comment> \<open>lines 670 to 675: the lowercase hex digest of the payload text followed by the key\<close>
  "expected_signature tokenData serviceKey =
     concat (map hex_byte (sha256 (utf8_encode (tokenData @ serviceKey))))"

subsection \<open>What the source leaves to the runtime and to the store\<close>

record admin =
  a_id :: string
  a_is_active :: bool
  a_division_id :: string

record program =
  p_id :: string
  p_division_id :: string

record module =
  m_id :: string
  m_program_id :: string
  m_module_type :: string
  m_is_published :: bool

record db =
  admins :: "admin list"
  programs :: "program list"
  program_modules :: "module list"

text \<open>
  The tables are lists of rows, columns are not null, and the store answers every query.
  What the handler hands to JavaScript's coercions and to the schema of the store, neither
  of which is in the source, is a field of \<open>env\<close>; the theorems hold for every value
  of these fields.
\<close>

record env =
  now :: int
    \<comment> \<open>\<^verbatim>\<open>Date.now()\<close>\<close>
  service_key :: string
    \<comment> \<open>\<^verbatim>\<open>SUPABASE_SERVICE_ROLE_KEY\<close>\<close>
  number_lt :: "json \<Rightarrow> int \<Rightarrow> bool"
    \<comment> \<open>\<^verbatim>\<open>v < n\<close> for a string, an array or an object \<open>v\<close>\<close>
  filter_text :: "json option \<Rightarrow> string"
    \<comment> \<open>the text an \<^verbatim>\<open>eq\<close> filter compares with, for a value that is not a string\<close>
  column_text :: "json option \<Rightarrow> string + string"
    \<comment> \<open>what a text column stores for a value that is not a string; \<open>Inl\<close> the refusal\<close>
  column_bool :: "json \<Rightarrow> string + bool"
    \<comment> \<open>what a boolean column stores for a value that is not a boolean\<close>
  new_id :: "module list \<Rightarrow> string"
    \<comment> \<open>the id the store gives a new row\<close>
  constraint :: "db \<Rightarrow> module list \<Rightarrow> string option"
    \<comment> \<open>the message with which the store refuses to turn the module table into the
        given one; \<open>None\<close> when it accepts\<close>
  empty_update :: "string option"
    \<comment> \<open>the error, if any, of an update that sets no column\<close>

subsection \<open>\<^verbatim>\<open>verifyAdminToken\<close>\<close>

definition js_lt :: "env \<Rightarrow> json option \<Rightarrow> int \<Rightarrow> bool" where
  \<comment> \<open>\<^verbatim>\<open>v < n\<close> for a number \<open>n\<close>: \<^verbatim>\<open>undefined\<close> is NaN, \<^verbatim>\<open>null\<close> is 0\<close>
  "js_lt E v n =
     (case v of
        None \<Rightarrow> False
      | Some JNull \<Rightarrow> 0 < n
      | Some (JBool b) \<Rightarrow> (if b then 1 else 0) < n
      | Some (JNum m e) \<Rightarrow> num_lt m e n
      | Some (JStr s) \<Rightarrow> number_lt E (JStr s) n
      | Some (JArr xs) \<Rightarrow> number_lt E (JArr xs) n
      | Some (JObj kvs) \<Rightarrow> number_lt E (JObj kvs) n)"

definition verify_try :: "env \<Rightarrow> string \<Rightarrow> string \<Rightarrow> js_error + json option" where
  \<comment> \<open>the body of the \<^verbatim>\<open>try\<close>, lines 657 to 682; \<open>Inl\<close> is a throw\<close>
  "verify_try E token serviceKey =
     (case (segment (split_dot token) 0, segment (split_dot token) 1) of
        (Some payloadBase64, Some signature) \<Rightarrow>
          if payloadBase64 = [] \<or> signature = [] then Inr None
          else
            (case atob payloadBase64 of
               None \<Rightarrow> Inl InvalidCharacterError
             | Some tokenData \<Rightarrow>
                 (case json_parse tokenData of
                    None \<Rightarrow> Inl SyntaxError
                  | Some payload \<Rightarrow>
                      (case get_prop (Some payload) ''exp'' of
                         Inl e \<Rightarrow> Inl e
                       | Inr exp \<Rightarrow>
                           if js_lt E exp (now E) then Inr None
                           else if signature \<noteq> expected_signature tokenData serviceKey
                             then Inr None
                           else Inr (Some payload))))
      | _ \<Rightarrow> Inr None)"

definition verifyAdminToken :: "env \<Rightarrow> string \<Rightarrow> string \<Rightarrow> json option" where
  \<comment> \<open>the \<^verbatim>\<open>catch\<close> turns every throw into \<^verbatim>\<open>null\<close>\<close>
  "verifyAdminToken E token serviceKey =
     (case verify_try E token serviceKey of Inl e \<Rightarrow> None | Inr r \<Rightarrow> r)"

subsection \<open>The storage client\<close>

definition single :: "'a list \<Rightarrow> string + 'a" where
  \<comment> \<open>\<^verbatim>\<open>.single()\<close>: an error unless exactly one row is selected\<close>
  "single rows =
     (case rows of
        [r] \<Rightarrow> Inr r
      | _ \<Rightarrow> Inl ''JSON object requested, multiple (or no) rows returned'')"

definition key_text :: "env \<Rightarrow> json option \<Rightarrow> string" where
  "key_text E v = (case v of Some (JStr s) \<Rightarrow> s | _ \<Rightarrow> filter_text E v)"

definition text_value :: "env \<Rightarrow> json option \<Rightarrow> string + string" where
  "text_value E v = (case v of Some (JStr s) \<Rightarrow> Inr s | _ \<Rightarrow> column_text E v)"

definition bool_value :: "env \<Rightarrow> json \<Rightarrow> string + bool" where
  "bool_value E v = (case v of JBool b \<Rightarrow> Inr b | _ \<Rightarrow> column_bool E v)"

definition select_admin :: "env \<Rightarrow> db \<Rightarrow> json option \<Rightarrow> string + admin" where
  "select_admin E d v = single (filter (\<lambda>a. a_id a = key_text E v) (admins d))"

definition select_program :: "env \<Rightarrow> db \<Rightarrow> json option \<Rightarrow> string + program" where
  "select_program E d v = single (filter (\<lambda>p. p_id p = key_text E v) (programs d))"

definition select_module :: "env \<Rightarrow> db \<Rightarrow> json option \<Rightarrow> string + module" where
  "select_module E d v = single (filter (\<lambda>m. m_id m = key_text E v) (program_modules d))"

definition insert_module ::
  "env \<Rightarrow> db \<Rightarrow> json option \<Rightarrow> json option \<Rightarrow> json \<Rightarrow> string + module \<times> db" where
  "insert_module E d program_id module_type is_published =
     (case text_value E program_id of
        Inl msg \<Rightarrow> Inl msg
      | Inr p \<Rightarrow>
          (case text_value E module_type of
             Inl msg \<Rightarrow> Inl msg
           | Inr t \<Rightarrow>
               (case bool_value E is_published of
                  Inl msg \<Rightarrow> Inl msg
                | Inr b \<Rightarrow>
                    (let row = \<lparr>m_id = new_id E (program_modules d), m_program_id = p,
                                m_module_type = t, m_is_published = b\<rparr>
                     in case constraint E d (program_modules d @ [row]) of
                          Some msg \<Rightarrow> Inl msg
                        | None \<Rightarrow>
                            Inr (row, d\<lparr>program_modules := program_modules d @ [row]\<rparr>)))))"

definition set_published :: "string \<Rightarrow> bool \<Rightarrow> module \<Rightarrow> module" where
  "set_published k b m = (if m_id m = k then m\<lparr>m_is_published := b\<rparr> else m)"

definition update_module :: "env \<Rightarrow> db \<Rightarrow> json option \<Rightarrow> json option \<Rightarrow> string + module \<times> db" where
  \<comment> \<open>\<^verbatim>\<open>.update(updateData).eq("id", data.id).select().single()\<close>, where \<^verbatim>\<open>updateData\<close> has
      the member \<^verbatim>\<open>is_published\<close> only when the payload has it\<close>
  "update_module E d is_published mid =
     (case is_published of
        None \<Rightarrow>
          (case empty_update E of
             Some msg \<Rightarrow> Inl msg
           | None \<Rightarrow>
               (case select_module E d mid of Inl msg \<Rightarrow> Inl msg | Inr m \<Rightarrow> Inr (m, d)))
      | Some v \<Rightarrow>
          (case bool_value E v of
             Inl msg \<Rightarrow> Inl msg
           | Inr b \<Rightarrow>
               (case constraint E d (map (set_published (key_text E mid) b) (program_modules d)) of
                  Some msg \<Rightarrow> Inl msg
                | None \<Rightarrow>
                    (case select_module E
                            (d\<lparr>program_modules :=
                                 map (set_published (key_text E mid) b) (program_modules d)\<rparr>) mid of
                       Inl msg \<Rightarrow> Inl msg
                     | Inr m \<Rightarrow>
                         Inr (m, d\<lparr>program_modules :=
                                     map (set_published (key_text E mid) b) (program_modules d)\<rparr>)))))"

definition delete_module :: "env \<Rightarrow> db \<Rightarrow> json option \<Rightarrow> string + db" where
  "delete_module E d mid =
     (case constraint E d (filter (\<lambda>m. m_id m \<noteq> key_text E mid) (program_modules d)) of
        Some msg \<Rightarrow> Inl msg
      | None \<Rightarrow>
          Inr (d\<lparr>program_modules :=
                   filter (\<lambda>m. m_id m \<noteq> key_text E mid) (program_modules d)\<rparr>))"

subsection \<open>The handler\<close>

record request =
  req_method :: string
  admin_token :: "string option"
    \<comment> \<open>\<^verbatim>\<open>req.headers.get("x-admin-token")\<close>\<close>
  req_body :: "json option"
    \<comment> \<open>\<^verbatim>\<open>await req.json()\<close>; \<open>None\<close> when it throws\<close>

record response =
  status :: nat
  body :: "json option"

definition error_response :: "nat \<Rightarrow> string \<Rightarrow> response" where
  "error_response st msg = \<lparr>status = st, body = Some (JObj [(''error'', JStr msg)])\<rparr>"

definition module_json :: "module \<Rightarrow> json" where
  "module_json m =
     JObj [(''id'', JStr (m_id m)), (''program_id'', JStr (m_program_id m)),
           (''module_type'', JStr (m_module_type m)), (''is_published'', JBool (m_is_published m))]"

definition module_response :: "module \<Rightarrow> response" where
  "module_response m =
     \<lparr>status = 200, body = Some (JObj [(''success'', JBool True), (''module'', module_json m)])\<rparr>"

definition success_response :: response where
  "success_response = \<lparr>status = 200, body = Some (JObj [(''success'', JBool True)])\<rparr>"

definition forbidden :: response where
  "forbidden =
     error_response 403 ''You can only manage modules for programs in your division''"

definition member :: "json option \<Rightarrow> string \<Rightarrow> json option" where
  \<comment> \<open>\<^verbatim>\<open>v.k\<close> where \<open>v\<close> is known to be neither \<^verbatim>\<open>null\<close> nor \<^verbatim>\<open>undefined\<close>\<close>
  "member v k = (case get_prop v k of Inl e \<Rightarrow> None | Inr x \<Rightarrow> x)"

definition verifyProgramAccess :: "env \<Rightarrow> db \<Rightarrow> string \<Rightarrow> json option \<Rightarrow> bool" where
  \<comment> \<open>lines 738 to 747; \<open>divisionId\<close> is the enclosing handler's \<^verbatim>\<open>admin.division_id\<close>\<close>
  "verifyProgramAccess E d divisionId programId =
     (case select_program E d programId of
        Inl e \<Rightarrow> False
      | Inr program \<Rightarrow> p_division_id program = divisionId)"

definition or_false :: "json option \<Rightarrow> json" where
  \<comment> \<open>\<^verbatim>\<open>data.is_published || false\<close>\<close>
  "or_false v = (case v of None \<Rightarrow> JBool False | Some x \<Rightarrow> if truthy v then x else JBool False)"

definition create_action :: "env \<Rightarrow> db \<Rightarrow> string \<Rightarrow> json option \<Rightarrow> js_error + response \<times> db" where
  "create_action E d divisionId data =
     (case get_prop data ''program_id'' of
        Inl e \<Rightarrow> Inl e
      | Inr program_id \<Rightarrow>
          if \<not> verifyProgramAccess E d divisionId program_id then Inr (forbidden, d)
          else
            (case insert_module E d program_id (member data ''module_type'')
                    (or_false (member data ''is_published'')) of
               Inl msg \<Rightarrow> Inr (error_response 400 msg, d)
             | Inr (m, d') \<Rightarrow> Inr (module_response m, d')))"

definition update_action :: "env \<Rightarrow> db \<Rightarrow> string \<Rightarrow> json option \<Rightarrow> js_error + response \<times> db" where
  "update_action E d divisionId data =
     (case get_prop data ''id'' of
        Inl e \<Rightarrow> Inl e
      | Inr mid \<Rightarrow>
          (case select_module E d mid of
             Inl e \<Rightarrow> Inr (error_response 404 ''Module not found'', d)
           | Inr existingModule \<Rightarrow>
               if \<not> verifyProgramAccess E d divisionId (Some (JStr (m_program_id existingModule)))
               then Inr (forbidden, d)
               else
                 (case update_module E d (member data ''is_published'') mid of
                    Inl msg \<Rightarrow> Inr (error_response 400 msg, d)
                  | Inr (m, d') \<Rightarrow> Inr (module_response m, d'))))"

definition delete_action :: "env \<Rightarrow> db \<Rightarrow> string \<Rightarrow> json option \<Rightarrow> js_error + response \<times> db" where
  "delete_action E d divisionId data =
     (case get_prop data ''id'' of
        Inl e \<Rightarrow> Inl e
      | Inr mid \<Rightarrow>
          (case select_module E d mid of
             Inl e \<Rightarrow> Inr (error_response 404 ''Module not found'', d)
           | Inr existingModule \<Rightarrow>
               if \<not> verifyProgramAccess E d divisionId (Some (JStr (m_program_id existingModule)))
               then Inr (forbidden, d)
               else
                 (case delete_module E d mid of
                    Inl msg \<Rightarrow> Inr (error_response 400 msg, d)
                  | Inr d' \<Rightarrow> Inr (success_response, d'))))"

definition dispatch :: "env \<Rightarrow> db \<Rightarrow> admin \<Rightarrow> json \<Rightarrow> js_error + response \<times> db" where
  \<comment> \<open>lines 732 to 878, from the destructuring of the body on\<close>
  "dispatch E d adm rbody =
     (case get_prop (Some rbody) ''action'' of
        Inl e \<Rightarrow> Inl e
      | Inr action \<Rightarrow>
          if action = Some (JStr ''create'')
            then create_action E d (a_division_id adm) (member (Some rbody) ''data'')
          else if action = Some (JStr ''update'')
            then update_action E d (a_division_id adm) (member (Some rbody) ''data'')
          else if action = Some (JStr ''delete'')
            then delete_action E d (a_division_id adm) (member (Some rbody) ''data'')
          else Inr (error_response 400 ''Invalid action'', d))"

definition authenticate :: "env \<Rightarrow> db \<Rightarrow> request \<Rightarrow> response + admin" where
  \<comment> \<open>lines 700 to 730: \<open>Inl\<close> the response of an early return, \<open>Inr\<close> the admin row\<close>
  "authenticate E d req =
     (case admin_token req of
        None \<Rightarrow> Inl (error_response 401 ''Admin token required'')
      | Some adminToken \<Rightarrow>
          if adminToken = [] then Inl (error_response 401 ''Admin token required'')
          else if \<not> truthy (verifyAdminToken E adminToken (service_key E))
            then Inl (error_response 401 ''Invalid or expired token'')
          else
            (case select_admin E d
                    (member (verifyAdminToken E adminToken (service_key E)) ''admin_id'') of
               Inl e \<Rightarrow> Inl (error_response 401 ''Admin account not found or inactive'')
             | Inr adm \<Rightarrow>
                 if \<not> a_is_active adm
                   then Inl (error_response 401 ''Admin account not found or inactive'')
                 else Inr adm))"

definition handle :: "env \<Rightarrow> db \<Rightarrow> request \<Rightarrow> js_error + response \<times> db" where
  \<comment> \<open>the body of the outer \<^verbatim>\<open>try\<close>, lines 695 to 879\<close>
  "handle E d req =
     (case authenticate E d req of
        Inl r \<Rightarrow> Inr (r, d)
      | Inr adm \<Rightarrow>
          (case req_body req of
             None \<Rightarrow> Inl SyntaxError
           | Some rbody \<Rightarrow> dispatch E d adm rbody))"

definition serve :: "env \<Rightarrow> db \<Rightarrow> request \<Rightarrow> response \<times> db" where
  \<comment> \<open>the response and the store after the request\<close>
  "serve E d req =
     (if req_method req = ''OPTIONS'' then (\<lparr>status = 200, body = None\<rparr>, d)
      else
        (case handle E d req of
           Inl e \<Rightarrow> (error_response 500 ''Internal server error'', d)
         | Inr r \<Rightarrow> r))"

subsection \<open>Sample data\<close>

text \<open>
  Issuance is outside the handler; a token is written here as its issuer builds it, the
  base64 of the payload text, a dot, and the digest of the text and the key.
\<close>

definition issue_token :: "string \<Rightarrow> string \<Rightarrow> string \<Rightarrow> string" where
  "issue_token b64 tokenData key = b64 @ CHR ''.'' # expected_signature tokenData key"

definition farm_text :: string where
  "farm_text = ''{\"admin_id\":\"admin-1\",\"user_id\":\"user-1\",\"division_id\":\"farmelife\",\"exp\":2000000000000}''"

definition farm_b64 :: string where
  "farm_b64 = ''eyJhZG1pbl9pZCI6ImFkbWluLTEiLCJ1c2VyX2lkIjoidXNlci0xIiwiZGl2aXNpb25faWQiOiJmYXJtZWxpZmUiLCJleHAiOjIwMDAwMDAwMDAwMDB9''"

definition farm_payload :: json where
  "farm_payload = JObj [(''admin_id'', JStr ''admin-1''), (''user_id'', JStr ''user-1''),
     (''division_id'', JStr ''farmelife''), (''exp'', JNum 2000000000000 0)]"

definition forged_text :: string where
  "forged_text = ''{\"admin_id\":\"admin-1\",\"user_id\":\"user-1\",\"division_id\":\"organelife\",\"exp\":2000000000000}''"

definition forged_b64 :: string where
  "forged_b64 = ''eyJhZG1pbl9pZCI6ImFkbWluLTEiLCJ1c2VyX2lkIjoidXNlci0xIiwiZGl2aXNpb25faWQiOiJvcmdhbmVsaWZlIiwiZXhwIjoyMDAwMDAwMDAwMDAwfQ==''"

definition forged_payload :: json where
  "forged_payload = JObj [(''admin_id'', JStr ''admin-1''), (''user_id'', JStr ''user-1''),
     (''division_id'', JStr ''organelife''), (''exp'', JNum 2000000000000 0)]"

definition organ_text :: string where
  "organ_text = ''{\"admin_id\":\"admin-2\",\"user_id\":\"user-1\",\"division_id\":\"organelife\",\"exp\":2000000000000}''"

definition organ_b64 :: string where
  "organ_b64 = ''eyJhZG1pbl9pZCI6ImFkbWluLTIiLCJ1c2VyX2lkIjoidXNlci0xIiwiZGl2aXNpb25faWQiOiJvcmdhbmVsaWZlIiwiZXhwIjoyMDAwMDAwMDAwMDAwfQ==''"

definition organ_payload :: json where
  "organ_payload = JObj [(''admin_id'', JStr ''admin-2''), (''user_id'', JStr ''user-1''),
     (''division_id'', JStr ''organelife''), (''exp'', JNum 2000000000000 0)]"

definition env0 :: env where
  "env0 = \<lparr>now = 1900000000000, service_key = ''service-role-key'',
     number_lt = (\<lambda>v n. False), filter_text = (\<lambda>v. ''undefined''),
     column_text = (\<lambda>v. Inl ''invalid input syntax''),
     column_bool = (\<lambda>v. Inl ''invalid input syntax for type boolean''),
     new_id = (\<lambda>ms. ''mod-new''),
     constraint = (\<lambda>d ms. if distinct (map m_id ms) then None
                           else Some ''duplicate key value violates unique constraint''),
     empty_update = Some ''JSON object requested, multiple (or no) rows returned''\<rparr>"

definition db0 :: db where
  "db0 = \<lparr>admins =
       [\<lparr>a_id = ''admin-1'', a_is_active = True, a_division_id = ''farmelife''\<rparr>,
        \<lparr>a_id = ''admin-2'', a_is_active = False, a_division_id = ''organelife''\<rparr>],
     programs =
       [\<lparr>p_id = ''prog-farm'', p_division_id = ''farmelife''\<rparr>,
        \<lparr>p_id = ''prog-organ'', p_division_id = ''organelife''\<rparr>],
     program_modules =
       [\<lparr>m_id = ''mod-1'', m_program_id = ''prog-farm'', m_module_type = ''announcement'',
         m_is_published = False\<rparr>,
        \<lparr>m_id = ''mod-2'', m_program_id = ''prog-organ'', m_module_type = ''registration'',
         m_is_published = False\<rparr>]\<rparr>"

definition farm_token :: string where
  "farm_token = issue_token farm_b64 farm_text ''service-role-key''"

definition forged_token :: string where
  "forged_token = issue_token forged_b64 forged_text ''service-role-key''"

definition organ_token :: string where
  "organ_token = issue_token organ_b64 organ_text ''service-role-key''"



definition same_except_division :: "json \<Rightarrow> json \<Rightarrow> bool" where
  \<comment> \<open>two payloads that agree on every member but \<^verbatim>\<open>division_id\<close>\<close>
  "same_except_division p q =
     (case (p, q) of
        (JObj kvs, JObj kvs') \<Rightarrow>
          (\<forall>k \<in> fst ` (set kvs \<union> set kvs').
             k \<noteq> ''division_id'' \<longrightarrow> map_of (rev kvs) k = map_of (rev kvs') k)
      | _ \<Rightarrow> p = q)"

definition new_module :: module where
  \<comment> \<open>the row the sample store inserts for a registration module of the farm program\<close>
  "new_module = \<lparr>m_id = ''mod-new'', m_program_id = ''prog-farm'',
     m_module_type = ''registration'', m_is_published = False\<rparr>"

definition post :: "string \<Rightarrow> json \<Rightarrow> request" where
  "post tok b = \<lparr>req_method = ''POST'', admin_token = Some tok, req_body = Some b\<rparr>"

definition action_body :: "string \<Rightarrow> (string \<times> json) list \<Rightarrow> json" where
  "action_body a kvs = JObj [(''action'', JStr a), (''data'', JObj kvs)]"

section \<open>Properties\<close>

subsection \<open>Tokens an issuer builds are accepted\<close>

lemma split_dot_nodot: "CHR ''.'' \<notin> set b \<Longrightarrow> split_dot b = [b]"
  by (induction b) auto

lemma split_dot_two:
  "CHR ''.'' \<notin> set a \<Longrightarrow> CHR ''.'' \<notin> set b \<Longrightarrow> split_dot (a @ CHR ''.'' # b) = [a, b]"
  by (induction a) (auto simp: split_dot_nodot)

lemma hex_digit_range: "n < 16 \<Longrightarrow> hex_digit n \<in> set hex_chars"
  unfolding hex_digit_def by (rule nth_mem) (simp add: hex_chars_def)

lemma hex_byte_chars:
  assumes "b < 256" and "c \<in> set (hex_byte b)"
  shows "c \<in> set hex_chars"
proof -
  from assms(2) have "c = hex_digit (b div 16) \<or> c = hex_digit (b mod 16)"
    by (simp add: hex_byte_def)
  moreover have "b div 16 < 16" using assms(1) by simp
  moreover have "b mod 16 < 16" by simp
  ultimately show ?thesis using hex_digit_range by blast
qed

lemma word_bytes_range: "x \<in> set (word_bytes w) \<Longrightarrow> x < 256"
  by (auto simp: word_bytes_def)

lemma word_bytes_length: "length (word_bytes w) = 4"
  by (simp add: word_bytes_def)

lemma state_bytes_range: "x \<in> set (state_bytes s) \<Longrightarrow> x < 256"
  by (cases s rule: state_bytes.cases) (auto dest: word_bytes_range)

lemma state_bytes_length: "length (state_bytes s) = 32"
  by (cases s rule: state_bytes.cases) (simp add: word_bytes_length)

lemma expected_signature_chars:
  assumes "c \<in> set (expected_signature t k)"
  shows "c \<in> set hex_chars"
proof -
  from assms obtain x where "x \<in> set (sha256 (utf8_encode (t @ k)))" and "c \<in> set (hex_byte x)"
    by (auto simp: expected_signature_def)
  then show ?thesis
    using hex_byte_chars state_bytes_range unfolding sha256_def by blast
qed

lemma concat_hex_length: "length (concat (map hex_byte xs)) = 2 * length xs"
  by (induction xs) (simp_all add: hex_byte_def)

lemma expected_signature_length: "length (expected_signature t k) = 64"
  by (simp add: expected_signature_def sha256_def concat_hex_length state_bytes_length)

lemma expected_signature_nodot: "CHR ''.'' \<notin> set (expected_signature t k)"
  using expected_signature_chars [of "CHR ''.''" t k] by (auto simp: hex_chars_def)

lemma expected_signature_nonempty: "expected_signature t k \<noteq> []"
  using expected_signature_length [of t k] by auto

lemma verify_issued:
  assumes "CHR ''.'' \<notin> set b64" and "b64 \<noteq> []"
    and "atob b64 = Some tokenData" and "json_parse tokenData = Some payload"
    and "get_prop (Some payload) ''exp'' = Inr x" and "\<not> js_lt E x (now E)"
  shows "verifyAdminToken E (issue_token b64 tokenData key) key = Some payload"
  using assms
  by (simp add: verifyAdminToken_def verify_try_def segment_def split_dot_two issue_token_def
      expected_signature_nodot expected_signature_nonempty)

lemma atob_farm: "atob farm_b64 = Some farm_text"
  by code_simp

lemma parse_farm: "json_parse farm_text = Some farm_payload"
  by code_simp

lemma atob_forged: "atob forged_b64 = Some forged_text"
  by code_simp

lemma parse_forged: "json_parse forged_text = Some forged_payload"
  by code_simp

lemma atob_organ: "atob organ_b64 = Some organ_text"
  by code_simp

lemma parse_organ: "json_parse organ_text = Some organ_payload"
  by code_simp

lemma verify_farm:
  assumes "now E \<le> 2000000000000"
  shows "verifyAdminToken E (issue_token farm_b64 farm_text k) k = Some farm_payload"
proof (rule verify_issued [OF _ _ atob_farm parse_farm])
  show "CHR ''.'' \<notin> set farm_b64" by (simp add: farm_b64_def)
  show "farm_b64 \<noteq> []" by (simp add: farm_b64_def)
  show "get_prop (Some farm_payload) ''exp'' = Inr (Some (JNum 2000000000000 0))"
    by (simp add: get_prop_def farm_payload_def)
  show "\<not> js_lt E (Some (JNum 2000000000000 0)) (now E)"
    using assms by (simp add: js_lt_def num_lt_def)
qed

lemma verify_forged:
  assumes "now E \<le> 2000000000000"
  shows "verifyAdminToken E (issue_token forged_b64 forged_text k) k = Some forged_payload"
proof (rule verify_issued [OF _ _ atob_forged parse_forged])
  show "CHR ''.'' \<notin> set forged_b64" by (simp add: forged_b64_def)
  show "forged_b64 \<noteq> []" by (simp add: forged_b64_def)
  show "get_prop (Some forged_payload) ''exp'' = Inr (Some (JNum 2000000000000 0))"
    by (simp add: get_prop_def forged_payload_def)
  show "\<not> js_lt E (Some (JNum 2000000000000 0)) (now E)"
    using assms by (simp add: js_lt_def num_lt_def)
qed

lemma verify_organ:
  assumes "now E \<le> 2000000000000"
  shows "verifyAdminToken E (issue_token organ_b64 organ_text k) k = Some organ_payload"
proof (rule verify_issued [OF _ _ atob_organ parse_organ])
  show "CHR ''.'' \<notin> set organ_b64" by (simp add: organ_b64_def)
  show "organ_b64 \<noteq> []" by (simp add: organ_b64_def)
  show "get_prop (Some organ_payload) ''exp'' = Inr (Some (JNum 2000000000000 0))"
    by (simp add: get_prop_def organ_payload_def)
  show "\<not> js_lt E (Some (JNum 2000000000000 0)) (now E)"
    using assms by (simp add: js_lt_def num_lt_def)
qed

subsection \<open>Authentication\<close>

lemma issue_token_nonempty: "issue_token b t k \<noteq> []"
  by (simp add: issue_token_def)

lemma single_inactive:
  assumes "\<forall>a \<in> set rows. P a \<longrightarrow> \<not> a_is_active a"
  shows "case single (filter P rows) of Inl e \<Rightarrow> True | Inr a \<Rightarrow> \<not> a_is_active a"
proof (cases "filter P rows")
  case Nil
  then show ?thesis by (simp add: single_def)
next
  case (Cons a as)
  then have "a \<in> set (filter P rows)" by simp
  then have "\<not> a_is_active a" using assms by simp
  then show ?thesis using Cons by (cases as) (simp_all add: single_def)
qed

text \<open>
  C5. When no active admin record has the id the token names, the response is 401 and
  the store is unchanged, whatever the action and although the token is well formed,
  unexpired and correctly signed. The hypothesis covers the absent record (no row) and
  the inactive one.
\<close>

theorem inactive_or_unknown_admin_rejected:
  assumes "req_method req \<noteq> ''OPTIONS''"
    and "admin_token req = Some tok"
    and "verifyAdminToken E tok (service_key E) = Some payload"
    and "\<forall>a \<in> set (admins d). a_id a = key_text E (member (Some payload) ''admin_id'')
           \<longrightarrow> \<not> a_is_active a"
  shows "status (fst (serve E d req)) = 401 \<and> snd (serve E d req) = d"
proof -
  have "case select_admin E d (member (Some payload) ''admin_id'') of
          Inl e \<Rightarrow> True | Inr a \<Rightarrow> \<not> a_is_active a"
    unfolding select_admin_def using assms(4) by (rule single_inactive)
  then show ?thesis
    using assms(1,2,3)
    by (auto simp: serve_def handle_def authenticate_def error_response_def split: sum.splits)
qed

theorem inactive_or_unknown_admin_rejected_witness:
  "status (fst (serve env0 db0 (post organ_token (action_body ''delete'' [(''id'', JStr ''mod-2'')]))))
     = 401
   \<and> snd (serve env0 db0 (post organ_token (action_body ''delete'' [(''id'', JStr ''mod-2'')])))
     = db0"
proof (rule inactive_or_unknown_admin_rejected [where payload = organ_payload])
  show "req_method (post organ_token (action_body ''delete'' [(''id'', JStr ''mod-2'')]))
      \<noteq> ''OPTIONS''"
    by (simp add: post_def)
  show "admin_token (post organ_token (action_body ''delete'' [(''id'', JStr ''mod-2'')]))
      = Some organ_token"
    by (simp add: post_def)
  show "verifyAdminToken env0 organ_token (service_key env0) = Some organ_payload"
    using verify_organ [of env0 "''service-role-key''"] by (simp add: env0_def organ_token_def)
  show "\<forall>a \<in> set (admins db0). a_id a = key_text env0 (member (Some organ_payload) ''admin_id'')
           \<longrightarrow> \<not> a_is_active a"
    by (simp add: db0_def key_text_def member_def get_prop_def organ_payload_def)
qed

subsection \<open>The token verifier\<close>

























subsection \<open>The division comes from the admin record\<close>

lemma verify_nonempty: "verifyAdminToken E tok key = Some p \<Longrightarrow> tok \<noteq> []"
  by (auto simp: verifyAdminToken_def verify_try_def segment_def)

lemma member_same_except:
  assumes "same_except_division p q" and "k \<noteq> ''division_id''"
  shows "member (Some p) k = member (Some q) k"
proof (cases p)
  case (JObj kvs)
  then obtain kvs' where q: "q = JObj kvs'"
    using assms(1) by (cases q) (simp_all add: same_except_division_def)
  show ?thesis
  proof (cases "k \<in> fst ` (set kvs \<union> set kvs')")
    case True
    then show ?thesis using assms JObj q
      by (auto simp: same_except_division_def member_def get_prop_def)
  next
    case False
    then have "map_of (rev kvs) k = None" and "map_of (rev kvs') k = None"
      by (auto simp: map_of_eq_None_iff image_Un)
    then show ?thesis using JObj q by (simp add: member_def get_prop_def)
  qed
qed (use assms(1) in \<open>simp_all add: same_except_division_def\<close>)

lemma truthy_same_except:
  assumes "same_except_division p q"
  shows "truthy (Some p) = truthy (Some q)"
  using assms by (cases p; cases q) (simp_all add: same_except_division_def truthy_def)

lemma authenticate_same_except:
  assumes "verifyAdminToken E t1 (service_key E) = Some p1"
    and "verifyAdminToken E t2 (service_key E) = Some p2"
    and "same_except_division p1 p2"
  shows "authenticate E d (r\<lparr>admin_token := Some t1\<rparr>) = authenticate E d (r\<lparr>admin_token := Some t2\<rparr>)"
  using assms verify_nonempty [OF assms(1)] verify_nonempty [OF assms(2)]
    member_same_except [OF assms(3), of "''admin_id''"] truthy_same_except [OF assms(3)]
  by (simp add: authenticate_def)

text \<open>
  C1. The handler reads the division from the admin row it looked up and never from the
  token: two requests that differ only in their tokens, both tokens accepted by the
  verifier and their payloads equal in every member but \<^verbatim>\<open>division_id\<close>, get the same
  response and leave the same store.
\<close>

theorem token_division_claim_ignored:
  assumes "verifyAdminToken E t1 (service_key E) = Some p1"
    and "verifyAdminToken E t2 (service_key E) = Some p2"
    and "same_except_division p1 p2"
  shows "serve E d (r\<lparr>admin_token := Some t1\<rparr>) = serve E d (r\<lparr>admin_token := Some t2\<rparr>)"
  using authenticate_same_except [OF assms, of d r]
  by (cases "authenticate E d (r\<lparr>admin_token := Some t2\<rparr>)") (simp_all add: serve_def handle_def)

lemma same_except_farm_forged: "same_except_division farm_payload forged_payload"
  by (simp add: same_except_division_def farm_payload_def forged_payload_def)

theorem token_division_claim_ignored_witness:
  "verifyAdminToken env0 farm_token (service_key env0) = Some farm_payload
   \<and> verifyAdminToken env0 forged_token (service_key env0) = Some forged_payload
   \<and> member (Some farm_payload) ''division_id'' \<noteq> member (Some forged_payload) ''division_id''
   \<and> serve env0 db0 (post farm_token (action_body ''delete'' [(''id'', JStr ''mod-2'')]))
     = serve env0 db0 (post forged_token (action_body ''delete'' [(''id'', JStr ''mod-2'')]))"
proof -
  have v1: "verifyAdminToken env0 farm_token (service_key env0) = Some farm_payload"
    using verify_farm [of env0 "''service-role-key''"] by (simp add: env0_def farm_token_def)
  have v2: "verifyAdminToken env0 forged_token (service_key env0) = Some forged_payload"
    using verify_forged [of env0 "''service-role-key''"] by (simp add: env0_def forged_token_def)
  have d: "member (Some farm_payload) ''division_id'' \<noteq> member (Some forged_payload) ''division_id''"
    by (simp add: member_def get_prop_def farm_payload_def forged_payload_def)
  show ?thesis
    using token_division_claim_ignored [OF v1 v2 same_except_farm_forged, of db0
        "post farm_token (action_body ''delete'' [(''id'', JStr ''mod-2'')])"] v1 v2 d
    by (simp add: post_def)
qed


subsection \<open>Authorization of the actions\<close>

lemma single_Inr_iff: "single rows = Inr r \<longleftrightarrow> rows = [r]"
  by (cases rows; cases "tl rows") (auto simp: single_def)

lemma single_Inr_mem: "single (filter P rows) = Inr r \<Longrightarrow> r \<in> set rows \<and> P r"
proof -
  assume "single (filter P rows) = Inr r"
  then have "filter P rows = [r]" by (simp add: single_Inr_iff)
  then have "r \<in> set (filter P rows)" by simp
  then show ?thesis by simp
qed

lemma single_filter_unique:
  assumes "single (filter P rows) = Inr r" and "x \<in> set rows" and "P x"
  shows "x = r"
proof -
  from assms(1) have "filter P rows = [r]" by (simp add: single_Inr_iff)
  moreover have "x \<in> set (filter P rows)" using assms(2,3) by simp
  ultimately show ?thesis by simp
qed

lemma single_filter_none:
  assumes "\<forall>x \<in> set rows. \<not> P x"
  shows "\<exists>e. single (filter P rows) = Inl e"
proof -
  have "filter P rows = []" using assms by (simp add: filter_empty_conv)
  then show ?thesis by (simp add: single_def)
qed

lemma filter_key_distinct:
  assumes "distinct (map f rows)" and "r \<in> set rows"
  shows "filter (\<lambda>x. f x = f r) rows = [r]"
  using assms
proof (induction rows)
  case Nil
  then show ?case by simp
next
  case (Cons a rows)
  show ?case
  proof (cases "a = r")
    case True
    then have "f r \<notin> f ` set rows" using Cons.prems by simp
    then have "\<forall>x \<in> set rows. f x \<noteq> f r" by (metis imageI)
    then have "filter (\<lambda>x. f x = f r) rows = []" by (simp add: filter_empty_conv)
    then show ?thesis using True by simp
  next
    case False
    then have "r \<in> set rows" using Cons.prems by simp
    moreover have "f a \<noteq> f r" using Cons.prems \<open>r \<in> set rows\<close> by auto
    ultimately show ?thesis using Cons by simp
  qed
qed

lemma serve_authenticated:
  assumes "req_method req \<noteq> ''OPTIONS''" and "authenticate E d req = Inr adm"
    and "req_body req = Some rbody"
  shows "serve E d req =
     (case dispatch E d adm rbody of
        Inl e \<Rightarrow> (error_response 500 ''Internal server error'', d) | Inr r \<Rightarrow> r)"
  using assms by (simp add: serve_def handle_def)

text \<open>
  C4. For an authenticated admin, an update or a delete of a module whose program belongs
  to another division than the admin's is answered 403, and the store is unchanged: the
  module is still there, with every field as before.
\<close>

theorem cross_division_update_delete_forbidden:
  assumes "req_method req \<noteq> ''OPTIONS''" and "authenticate E d req = Inr adm"
    and "req_body req = Some rbody"
    and "get_prop (Some rbody) ''action'' = Inr (Some (JStr a))"
    and "a = ''update'' \<or> a = ''delete''"
    and "get_prop (member (Some rbody) ''data'') ''id'' = Inr mid"
    and "select_module E d mid = Inr m"
    and "select_program E d (Some (JStr (m_program_id m))) = Inr pr"
    and "p_division_id pr \<noteq> a_division_id adm"
  shows "status (fst (serve E d req)) = 403 \<and> snd (serve E d req) = d
         \<and> select_module E (snd (serve E d req)) mid = Inr m"
proof -
  have na: "\<not> verifyProgramAccess E d (a_division_id adm) (Some (JStr (m_program_id m)))"
    using assms(8,9) by (simp add: verifyProgramAccess_def)
  have "dispatch E d adm rbody = Inr (forbidden, d)"
    using assms(4,5,6,7) na
    by (auto simp: dispatch_def update_action_def delete_action_def)
  then have "serve E d req = (forbidden, d)"
    using serve_authenticated [OF assms(1,2,3)] by simp
  then show ?thesis using assms(7) by (simp add: forbidden_def error_response_def)
qed

lemma authenticate_farm:
  "authenticate env0 db0 (post farm_token b)
     = Inr \<lparr>a_id = ''admin-1'', a_is_active = True, a_division_id = ''farmelife''\<rparr>"
proof -
  have v: "verifyAdminToken env0 farm_token ''service-role-key'' = Some farm_payload"
    using verify_farm [of env0 "''service-role-key''"] by (simp add: env0_def farm_token_def)
  have n: "farm_token \<noteq> []" by (simp add: farm_token_def issue_token_nonempty)
  show ?thesis
    using v n
    by (simp add: env0_def farm_payload_def authenticate_def post_def truthy_def
        member_def get_prop_def select_admin_def key_text_def db0_def single_def)
qed

theorem cross_division_update_delete_forbidden_witness:
  "status (fst (serve env0 db0 (post farm_token
       (action_body ''update'' [(''id'', JStr ''mod-2''), (''is_published'', JBool True)])))) = 403
   \<and> snd (serve env0 db0 (post farm_token
       (action_body ''update'' [(''id'', JStr ''mod-2''), (''is_published'', JBool True)]))) = db0
   \<and> status (fst (serve env0 db0 (post farm_token
       (action_body ''delete'' [(''id'', JStr ''mod-2'')])))) = 403
   \<and> snd (serve env0 db0 (post farm_token (action_body ''delete'' [(''id'', JStr ''mod-2'')]))) = db0"
proof -
  let ?m = "\<lparr>m_id = ''mod-2'', m_program_id = ''prog-organ'', m_module_type = ''registration'',
         m_is_published = False\<rparr>"
  let ?pr = "\<lparr>p_id = ''prog-organ'', p_division_id = ''organelife''\<rparr>"
  have sm: "select_module env0 db0 (Some (JStr ''mod-2'')) = Inr ?m"
    by (simp add: select_module_def key_text_def db0_def single_def)
  have sp: "select_program env0 db0 (Some (JStr (m_program_id ?m))) = Inr ?pr"
    by (simp add: select_program_def key_text_def db0_def single_def)
  have u: "status (fst (serve env0 db0 (post farm_token
       (action_body ''update'' [(''id'', JStr ''mod-2''), (''is_published'', JBool True)])))) = 403
   \<and> snd (serve env0 db0 (post farm_token
       (action_body ''update'' [(''id'', JStr ''mod-2''), (''is_published'', JBool True)]))) = db0"
    using cross_division_update_delete_forbidden [OF _ authenticate_farm _ _ _ _ sm sp,
        where rbody = "action_body ''update''
          [(''id'', JStr ''mod-2''), (''is_published'', JBool True)]" and a = "''update''"]
    by (simp add: post_def action_body_def get_prop_def member_def)
  have dl: "status (fst (serve env0 db0 (post farm_token
       (action_body ''delete'' [(''id'', JStr ''mod-2'')])))) = 403
   \<and> snd (serve env0 db0 (post farm_token (action_body ''delete'' [(''id'', JStr ''mod-2'')]))) = db0"
    using cross_division_update_delete_forbidden [OF _ authenticate_farm _ _ _ _ sm sp,
        where rbody = "action_body ''delete'' [(''id'', JStr ''mod-2'')]" and a = "''delete''"]
    by (simp add: post_def action_body_def get_prop_def member_def)
  show ?thesis using u dl by simp
qed


lemma verifyProgramAccess_iff:
  assumes "distinct (map p_id (programs d))"
  shows "verifyProgramAccess E d dv (Some (JStr pid))
     = (\<exists>pr \<in> set (programs d). p_id pr = pid \<and> p_division_id pr = dv)"
proof
  assume "verifyProgramAccess E d dv (Some (JStr pid))"
  then obtain pr where "select_program E d (Some (JStr pid)) = Inr pr" and "p_division_id pr = dv"
    by (auto simp: verifyProgramAccess_def split: sum.splits)
  then show "\<exists>pr \<in> set (programs d). p_id pr = pid \<and> p_division_id pr = dv"
    using single_Inr_mem [of "\<lambda>p. p_id p = pid" "programs d" pr]
    by (auto simp: select_program_def key_text_def)
next
  assume "\<exists>pr \<in> set (programs d). p_id pr = pid \<and> p_division_id pr = dv"
  then obtain pr where pr: "pr \<in> set (programs d)" "p_id pr = pid" "p_division_id pr = dv"
    by blast
  have "filter (\<lambda>x. p_id x = p_id pr) (programs d) = [pr]"
    using assms pr(1) by (rule filter_key_distinct)
  then show "verifyProgramAccess E d dv (Some (JStr pid))"
    using pr by (simp add: verifyProgramAccess_def select_program_def key_text_def single_def)
qed

lemma verifyProgramAccess_missing:
  assumes "\<forall>pr \<in> set (programs d). p_id pr \<noteq> pid"
  shows "\<not> verifyProgramAccess E d dv (Some (JStr pid))"
proof -
  obtain e where "single (filter (\<lambda>p. p_id p = pid) (programs d)) = Inl e"
    using single_filter_none [of "programs d" "\<lambda>p. p_id p = pid"] assms by blast
  then show ?thesis by (simp add: verifyProgramAccess_def select_program_def key_text_def)
qed

lemma verifyProgramAccess_other:
  assumes "pr \<in> set (programs d)" and "p_id pr = pid" and "p_division_id pr \<noteq> dv"
  shows "\<not> verifyProgramAccess E d dv (Some (JStr pid))"
proof
  assume "verifyProgramAccess E d dv (Some (JStr pid))"
  then obtain pr' where s: "single (filter (\<lambda>p. p_id p = pid) (programs d)) = Inr pr'"
    and dv: "p_division_id pr' = dv"
    by (auto simp: verifyProgramAccess_def select_program_def key_text_def split: sum.splits)
  have "pr = pr'" using single_filter_unique [OF s assms(1)] assms(2) by simp
  then show False using dv assms(3) by simp
qed

lemma create_denied:
  assumes "req_method req \<noteq> ''OPTIONS''" and "authenticate E d req = Inr adm"
    and "req_body req = Some rbody"
    and "get_prop (Some rbody) ''action'' = Inr (Some (JStr ''create''))"
    and "get_prop (member (Some rbody) ''data'') ''program_id'' = Inr pidv"
    and "\<not> verifyProgramAccess E d (a_division_id adm) pidv"
  shows "serve E d req = (forbidden, d)"
proof -
  have "dispatch E d adm rbody = Inr (forbidden, d)"
    using assms(4,5,6) by (simp add: dispatch_def create_action_def)
  then show ?thesis using serve_authenticated [OF assms(1,2,3)] by simp
qed

text \<open>
  C6. With program ids unique, \<open>verifyProgramAccess\<close> holds for a program id and a
  division exactly when a program with that id exists and has that division; a missing
  program gives false. A create whose program is missing and one whose program belongs to
  another division get the same answer, 403 with the same body, and insert no row.
\<close>

theorem program_access_by_division:
  "(distinct (map p_id (programs d)) \<longrightarrow>
      verifyProgramAccess E d dv (Some (JStr pid))
        = (\<exists>pr \<in> set (programs d). p_id pr = pid \<and> p_division_id pr = dv))
   \<and> ((\<forall>pr \<in> set (programs d). p_id pr \<noteq> pid) \<longrightarrow>
        \<not> verifyProgramAccess E d dv (Some (JStr pid)))
   \<and> (\<forall>req adm rbody.
        req_method req \<noteq> ''OPTIONS'' \<and> authenticate E d req = Inr adm
        \<and> req_body req = Some rbody
        \<and> get_prop (Some rbody) ''action'' = Inr (Some (JStr ''create''))
        \<and> get_prop (member (Some rbody) ''data'') ''program_id'' = Inr (Some (JStr pid))
        \<and> ((\<forall>pr \<in> set (programs d). p_id pr \<noteq> pid)
            \<or> (\<exists>pr \<in> set (programs d). p_id pr = pid \<and> p_division_id pr \<noteq> a_division_id adm))
        \<longrightarrow> serve E d req = (forbidden, d) \<and> status forbidden = 403)"
proof (intro conjI allI impI)
  assume "distinct (map p_id (programs d))"
  then show "verifyProgramAccess E d dv (Some (JStr pid))
        = (\<exists>pr \<in> set (programs d). p_id pr = pid \<and> p_division_id pr = dv)"
    by (rule verifyProgramAccess_iff)
next
  assume "\<forall>pr \<in> set (programs d). p_id pr \<noteq> pid"
  then show "\<not> verifyProgramAccess E d dv (Some (JStr pid))"
    by (rule verifyProgramAccess_missing)
next
  fix req adm rbody
  assume a: "req_method req \<noteq> ''OPTIONS'' \<and> authenticate E d req = Inr adm
        \<and> req_body req = Some rbody
        \<and> get_prop (Some rbody) ''action'' = Inr (Some (JStr ''create''))
        \<and> get_prop (member (Some rbody) ''data'') ''program_id'' = Inr (Some (JStr pid))
        \<and> ((\<forall>pr \<in> set (programs d). p_id pr \<noteq> pid)
            \<or> (\<exists>pr \<in> set (programs d). p_id pr = pid \<and> p_division_id pr \<noteq> a_division_id adm))"
  then have "\<not> verifyProgramAccess E d (a_division_id adm) (Some (JStr pid))"
    using verifyProgramAccess_missing verifyProgramAccess_other by blast
  then show "serve E d req = (forbidden, d)"
    using a create_denied by blast
next
  show "status forbidden = 403" by (simp add: forbidden_def error_response_def)
qed

theorem program_access_by_division_witness:
  "verifyProgramAccess env0 db0 ''farmelife'' (Some (JStr ''prog-farm''))
   \<and> \<not> verifyProgramAccess env0 db0 ''farmelife'' (Some (JStr ''prog-organ''))
   \<and> \<not> verifyProgramAccess env0 db0 ''farmelife'' (Some (JStr ''prog-none''))
   \<and> serve env0 db0 (post farm_token (action_body ''create''
        [(''program_id'', JStr ''prog-organ''), (''module_type'', JStr ''registration'')]))
      = (forbidden, db0)
   \<and> serve env0 db0 (post farm_token (action_body ''create''
        [(''program_id'', JStr ''prog-none''), (''module_type'', JStr ''registration'')]))
      = (forbidden, db0)"
proof -
  have dp: "distinct (map p_id (programs db0))" by (simp add: db0_def)
  have a1: "verifyProgramAccess env0 db0 ''farmelife'' (Some (JStr ''prog-farm''))"
    using program_access_by_division [of db0 env0 "''farmelife''" "''prog-farm''"] dp
    by (simp add: db0_def)
  have a2: "\<not> verifyProgramAccess env0 db0 ''farmelife'' (Some (JStr ''prog-organ''))"
    using program_access_by_division [of db0 env0 "''farmelife''" "''prog-organ''"] dp
    by (simp add: db0_def)
  have a3: "\<not> verifyProgramAccess env0 db0 ''farmelife'' (Some (JStr ''prog-none''))"
    using program_access_by_division [of db0 env0 "''farmelife''" "''prog-none''"]
    by (simp add: db0_def)
  let ?r1 = "post farm_token (action_body ''create''
        [(''program_id'', JStr ''prog-organ''), (''module_type'', JStr ''registration'')])"
  let ?r2 = "post farm_token (action_body ''create''
        [(''program_id'', JStr ''prog-none''), (''module_type'', JStr ''registration'')])"
  have c1: "serve env0 db0 ?r1 = (forbidden, db0)"
  proof -
    have "req_method ?r1 \<noteq> ''OPTIONS'' \<and> authenticate env0 db0 ?r1 = Inr \<lparr>a_id = ''admin-1'', a_is_active = True, a_division_id = ''farmelife''\<rparr>
        \<and> req_body ?r1 = Some (action_body ''create''
        [(''program_id'', JStr ''prog-organ''), (''module_type'', JStr ''registration'')])
        \<and> get_prop (Some (action_body ''create''
        [(''program_id'', JStr ''prog-organ''), (''module_type'', JStr ''registration'')])) ''action'' = Inr (Some (JStr ''create''))
        \<and> get_prop (member (Some (action_body ''create''
        [(''program_id'', JStr ''prog-organ''), (''module_type'', JStr ''registration'')])) ''data'') ''program_id'' = Inr (Some (JStr ''prog-organ''))
        \<and> ((\<forall>pr \<in> set (programs db0). p_id pr \<noteq> ''prog-organ'')
            \<or> (\<exists>pr \<in> set (programs db0). p_id pr = ''prog-organ'' \<and> p_division_id pr \<noteq> a_division_id \<lparr>a_id = ''admin-1'', a_is_active = True, a_division_id = ''farmelife''\<rparr>))"
      using authenticate_farm
      by (simp add: post_def action_body_def get_prop_def member_def db0_def)
    then show ?thesis
      using program_access_by_division [of db0 env0 "''farmelife''" "''prog-organ''"] by blast
  qed
  have c2: "serve env0 db0 ?r2 = (forbidden, db0)"
  proof -
    have "req_method ?r2 \<noteq> ''OPTIONS'' \<and> authenticate env0 db0 ?r2 = Inr \<lparr>a_id = ''admin-1'', a_is_active = True, a_division_id = ''farmelife''\<rparr>
        \<and> req_body ?r2 = Some (action_body ''create''
        [(''program_id'', JStr ''prog-none''), (''module_type'', JStr ''registration'')])
        \<and> get_prop (Some (action_body ''create''
        [(''program_id'', JStr ''prog-none''), (''module_type'', JStr ''registration'')])) ''action'' = Inr (Some (JStr ''create''))
        \<and> get_prop (member (Some (action_body ''create''
        [(''program_id'', JStr ''prog-none''), (''module_type'', JStr ''registration'')])) ''data'') ''program_id'' = Inr (Some (JStr ''prog-none''))
        \<and> ((\<forall>pr \<in> set (programs db0). p_id pr \<noteq> ''prog-none'')
            \<or> (\<exists>pr \<in> set (programs db0). p_id pr = ''prog-none'' \<and> p_division_id pr \<noteq> a_division_id \<lparr>a_id = ''admin-1'', a_is_active = True, a_division_id = ''farmelife''\<rparr>))"
      using authenticate_farm
      by (simp add: post_def action_body_def get_prop_def member_def db0_def)
    then show ?thesis
      using program_access_by_division [of db0 env0 "''farmelife''" "''prog-none''"] by blast
  qed
  show ?thesis using a1 a2 a3 c1 c2 by simp
qed


lemma authenticate_admins:
  assumes "admins d' = admins d"
  shows "authenticate E d' req = authenticate E d req"
proof -
  have "select_admin E d' v = select_admin E d v" for v
    using assms by (simp add: select_admin_def)
  then show ?thesis by (simp add: authenticate_def split: option.splits)
qed

lemma verifyProgramAccess_programs:
  "programs d' = programs d \<Longrightarrow> verifyProgramAccess E d' dv v = verifyProgramAccess E d dv v"
  by (simp add: verifyProgramAccess_def select_program_def)

lemma module_missing:
  assumes "\<forall>m \<in> set (program_modules d). m_id m \<noteq> key_text E mid"
  shows "\<exists>e. select_module E d mid = Inl e"
  unfolding select_module_def
  using single_filter_none [of "program_modules d" "\<lambda>m. m_id m = key_text E mid"] assms by simp

lemma module_present:
  assumes "distinct (map m_id (program_modules d))" and "m \<in> set (program_modules d)"
    and "m_id m = key_text E mid"
  shows "select_module E d mid = Inr m"
  using filter_key_distinct [OF assms(1,2)] assms(3) by (simp add: select_module_def single_def)

lemma update_action_missing:
  assumes "get_prop dat ''id'' = Inr mid"
    and "\<forall>m \<in> set (program_modules d). m_id m \<noteq> key_text E mid"
  shows "update_action E d dv dat = Inr (error_response 404 ''Module not found'', d)"
  using assms(1) module_missing [OF assms(2)] by (auto simp: update_action_def)

lemma delete_action_missing:
  assumes "get_prop dat ''id'' = Inr mid"
    and "\<forall>m \<in> set (program_modules d). m_id m \<noteq> key_text E mid"
  shows "delete_action E d dv dat = Inr (error_response 404 ''Module not found'', d)"
  using assms(1) module_missing [OF assms(2)] by (auto simp: delete_action_def)

lemma update_action_found_status:
  assumes "get_prop dat ''id'' = Inr mid" and "select_module E d mid = Inr m"
    and "update_action E d dv dat = Inr (r, d')"
  shows "status r \<noteq> 404"
  using assms
  by (auto simp: update_action_def forbidden_def error_response_def module_response_def
      split: if_splits sum.splits)

lemma delete_action_found_status:
  assumes "get_prop dat ''id'' = Inr mid" and "select_module E d mid = Inr m"
    and "delete_action E d dv dat = Inr (r, d')"
  shows "status r \<noteq> 404"
  using assms
  by (auto simp: delete_action_def forbidden_def error_response_def success_response_def
      split: if_splits sum.splits)

lemma delete_action_success:
  assumes "get_prop dat ''id'' = Inr mid"
    and "delete_action E d dv dat = Inr (success_response, d')"
  shows "d' = d\<lparr>program_modules := filter (\<lambda>m. m_id m \<noteq> key_text E mid) (program_modules d)\<rparr>"
  using assms
  by (auto simp: delete_action_def delete_module_def forbidden_def error_response_def
      success_response_def split: if_splits sum.splits option.splits)


lemma update_action_returns:
  "get_prop dat ''id'' = Inr mid \<Longrightarrow> \<exists>r d'. update_action E d dv dat = Inr (r, d')"
  by (auto simp: update_action_def split: sum.splits)

lemma delete_action_returns:
  "get_prop dat ''id'' = Inr mid \<Longrightarrow> \<exists>r d'. delete_action E d dv dat = Inr (r, d')"
  by (auto simp: delete_action_def split: sum.splits)

lemma dispatch_update:
  "get_prop (Some rbody) ''action'' = Inr (Some (JStr ''update'')) \<Longrightarrow>
   dispatch E d adm rbody = update_action E d (a_division_id adm) (member (Some rbody) ''data'')"
  by (simp add: dispatch_def)

lemma dispatch_delete:
  "get_prop (Some rbody) ''action'' = Inr (Some (JStr ''delete'')) \<Longrightarrow>
   dispatch E d adm rbody = delete_action E d (a_division_id adm) (member (Some rbody) ''data'')"
  by (simp add: dispatch_def)

text \<open>
  C7. For an authenticated update or delete: when no module has the given id, the answer
  is 404 (Module not found), which differs from the 403 of an authorization failure, and
  the store is unchanged; with module ids unique, a 404 is given only when no module has
  that id; and a delete repeated after it succeeded is answered 404, not with a fault.
\<close>

theorem missing_module_not_found:
  assumes "req_method req \<noteq> ''OPTIONS''" and "authenticate E d req = Inr adm"
    and "req_body req = Some rbody"
    and "get_prop (Some rbody) ''action'' = Inr (Some (JStr a))"
    and "a = ''update'' \<or> a = ''delete''"
    and "get_prop (member (Some rbody) ''data'') ''id'' = Inr mid"
  shows "((\<forall>m \<in> set (program_modules d). m_id m \<noteq> key_text E mid) \<longrightarrow>
            serve E d req = (error_response 404 ''Module not found'', d))
    \<and> (distinct (map m_id (program_modules d)) \<and> status (fst (serve E d req)) = 404 \<longrightarrow>
         (\<forall>m \<in> set (program_modules d). m_id m \<noteq> key_text E mid))
    \<and> (a = ''delete'' \<and> fst (serve E d req) = success_response \<longrightarrow>
         serve E (snd (serve E d req)) req
           = (error_response 404 ''Module not found'', snd (serve E d req)))"
proof (intro conjI impI)
  assume none: "\<forall>m \<in> set (program_modules d). m_id m \<noteq> key_text E mid"
  have "dispatch E d adm rbody = Inr (error_response 404 ''Module not found'', d)"
    using assms(4,5) update_action_missing [OF assms(6) none]
      delete_action_missing [OF assms(6) none] dispatch_update dispatch_delete
    by auto
  then show "serve E d req = (error_response 404 ''Module not found'', d)"
    using serve_authenticated [OF assms(1,2,3)] by simp
next
  assume h: "distinct (map m_id (program_modules d)) \<and> status (fst (serve E d req)) = 404"
  show "\<forall>m \<in> set (program_modules d). m_id m \<noteq> key_text E mid"
  proof (rule ballI, rule notI)
    fix m
    assume m: "m \<in> set (program_modules d)" and k: "m_id m = key_text E mid"
    have sel: "select_module E d mid = Inr m" using module_present h m k by blast
    obtain r d' where r: "dispatch E d adm rbody = Inr (r, d')" and st: "status r \<noteq> 404"
    proof (cases "a = ''update''")
      case True
      obtain r d' where "update_action E d (a_division_id adm) (member (Some rbody) ''data'')
          = Inr (r, d')"
        using update_action_returns [OF assms(6)] by blast
      then show ?thesis
        using that update_action_found_status [OF assms(6) sel] dispatch_update assms(4) True
        by auto
    next
      case False
      then have dl: "a = ''delete''" using assms(5) by simp
      obtain r d' where "delete_action E d (a_division_id adm) (member (Some rbody) ''data'')
          = Inr (r, d')"
        using delete_action_returns [OF assms(6)] by blast
      then show ?thesis
        using that delete_action_found_status [OF assms(6) sel] dispatch_delete assms(4) dl
        by auto
    qed
    have "serve E d req = (r, d')" using serve_authenticated [OF assms(1,2,3)] r by simp
    then show False using h st by simp
  qed
next
  assume h: "a = ''delete'' \<and> fst (serve E d req) = success_response"
  let ?d' = "snd (serve E d req)"
  obtain r d' where r: "delete_action E d (a_division_id adm) (member (Some rbody) ''data'')
      = Inr (r, d')"
    using delete_action_returns [OF assms(6)] by blast
  then have sv: "serve E d req = (r, d')"
    using serve_authenticated [OF assms(1,2,3)] dispatch_delete assms(4) h by simp
  then have "r = success_response" using h by simp
  then have d': "d' = d\<lparr>program_modules :=
      filter (\<lambda>m. m_id m \<noteq> key_text E mid) (program_modules d)\<rparr>"
    using delete_action_success [OF assms(6)] r by simp
  have au: "authenticate E d' req = Inr adm"
    using authenticate_admins [of d' d E req] d' assms(2) by simp
  have none: "\<forall>m \<in> set (program_modules d'). m_id m \<noteq> key_text E mid"
    using d' by simp
  have "dispatch E d' adm rbody = Inr (error_response 404 ''Module not found'', d')"
    using delete_action_missing [OF assms(6) none] dispatch_delete assms(4) h by simp
  then have "serve E d' req = (error_response 404 ''Module not found'', d')"
    using serve_authenticated [OF assms(1) au assms(3)] by simp
  then show "serve E ?d' req = (error_response 404 ''Module not found'', ?d')"
    using sv by simp
qed

lemma serve_delete_mod1:
  "serve env0 db0 (post farm_token (action_body ''delete'' [(''id'', JStr ''mod-1'')]))
     = (success_response, db0\<lparr>program_modules :=
         [\<lparr>m_id = ''mod-2'', m_program_id = ''prog-organ'', m_module_type = ''registration'',
           m_is_published = False\<rparr>]\<rparr>)"
proof -
  have "dispatch env0 db0 \<lparr>a_id = ''admin-1'', a_is_active = True, a_division_id = ''farmelife''\<rparr>
      (action_body ''delete'' [(''id'', JStr ''mod-1'')])
     = Inr (success_response, db0\<lparr>program_modules :=
         [\<lparr>m_id = ''mod-2'', m_program_id = ''prog-organ'', m_module_type = ''registration'',
           m_is_published = False\<rparr>]\<rparr>)"
    by (simp add: dispatch_def action_body_def get_prop_def member_def delete_action_def
        select_module_def select_program_def verifyProgramAccess_def key_text_def single_def
        delete_module_def db0_def env0_def)
  then show ?thesis
    using serve_authenticated [OF _ authenticate_farm,
        of "action_body ''delete'' [(''id'', JStr ''mod-1'')]"
           "action_body ''delete'' [(''id'', JStr ''mod-1'')]"]
    by (simp add: post_def)
qed

theorem missing_module_not_found_witness:
  "serve env0 db0 (post farm_token (action_body ''update'' [(''id'', JStr ''mod-9'')]))
     = (error_response 404 ''Module not found'', db0)
   \<and> fst (serve env0 db0 (post farm_token (action_body ''delete'' [(''id'', JStr ''mod-1'')])))
     = success_response
   \<and> serve env0
       (snd (serve env0 db0 (post farm_token (action_body ''delete'' [(''id'', JStr ''mod-1'')]))))
       (post farm_token (action_body ''delete'' [(''id'', JStr ''mod-1'')]))
     = (error_response 404 ''Module not found'',
        snd (serve env0 db0 (post farm_token (action_body ''delete'' [(''id'', JStr ''mod-1'')]))))"
proof -
  have u: "serve env0 db0 (post farm_token (action_body ''update'' [(''id'', JStr ''mod-9'')]))
     = (error_response 404 ''Module not found'', db0)"
    using missing_module_not_found [OF _ authenticate_farm,
        where rbody = "action_body ''update'' [(''id'', JStr ''mod-9'')]" and a = "''update''"
          and mid = "Some (JStr ''mod-9'')"]
    by (simp add: post_def action_body_def get_prop_def member_def key_text_def db0_def)
  have s: "fst (serve env0 db0 (post farm_token (action_body ''delete'' [(''id'', JStr ''mod-1'')])))
     = success_response"
    by (simp add: serve_delete_mod1)
  have dd: "serve env0
       (snd (serve env0 db0 (post farm_token (action_body ''delete'' [(''id'', JStr ''mod-1'')]))))
       (post farm_token (action_body ''delete'' [(''id'', JStr ''mod-1'')]))
     = (error_response 404 ''Module not found'',
        snd (serve env0 db0 (post farm_token (action_body ''delete'' [(''id'', JStr ''mod-1'')]))))"
    using missing_module_not_found [OF _ authenticate_farm,
        where rbody = "action_body ''delete'' [(''id'', JStr ''mod-1'')]" and a = "''delete''"
          and mid = "Some (JStr ''mod-1'')"] s
    by (simp add: post_def action_body_def get_prop_def member_def)
  show ?thesis using u s dd by simp
qed


subsection \<open>What create and update write\<close>

lemma or_false_falsy: "\<not> truthy v \<Longrightarrow> or_false v = JBool False"
  by (auto simp: or_false_def split: option.splits)

lemma dispatch_create:
  "get_prop (Some rbody) ''action'' = Inr (Some (JStr ''create'')) \<Longrightarrow>
   dispatch E d adm rbody = create_action E d (a_division_id adm) (member (Some rbody) ''data'')"
  by (simp add: dispatch_def)

lemma insert_module_Inr:
  assumes "insert_module E d pv tv bv = Inr (m, d')"
  shows "d' = d\<lparr>program_modules := program_modules d @ [m]\<rparr>
    \<and> text_value E pv = Inr (m_program_id m) \<and> text_value E tv = Inr (m_module_type m)
    \<and> bool_value E bv = Inr (m_is_published m) \<and> m_id m = new_id E (program_modules d)
    \<and> constraint E d (program_modules d @ [m]) = None"
  using assms
  by (auto simp: insert_module_def Let_def split: sum.splits option.splits)

lemma create_action_200:
  assumes "create_action E d dv dat = Inr (r, d')" and "status r = 200"
  shows "\<exists>m pv. get_prop dat ''program_id'' = Inr pv \<and> verifyProgramAccess E d dv pv
      \<and> insert_module E d pv (member dat ''module_type'') (or_false (member dat ''is_published''))
          = Inr (m, d')
      \<and> r = module_response m"
  using assms
  by (auto simp: create_action_def forbidden_def error_response_def
      split: sum.splits if_splits)

lemma serve_create_200:
  assumes "req_method req \<noteq> ''OPTIONS''" and "authenticate E d req = Inr adm"
    and "req_body req = Some rbody"
    and "get_prop (Some rbody) ''action'' = Inr (Some (JStr ''create''))"
    and "status (fst (serve E d req)) = 200"
  shows "\<exists>m pv. serve E d req = (module_response m, d\<lparr>program_modules := program_modules d @ [m]\<rparr>)
      \<and> get_prop (member (Some rbody) ''data'') ''program_id'' = Inr pv
      \<and> verifyProgramAccess E d (a_division_id adm) pv
      \<and> insert_module E d pv (member (member (Some rbody) ''data'') ''module_type'')
           (or_false (member (member (Some rbody) ''data'') ''is_published''))
          = Inr (m, d\<lparr>program_modules := program_modules d @ [m]\<rparr>)"
proof (cases "create_action E d (a_division_id adm) (member (Some rbody) ''data'')")
  case (Inl e)
  then have "serve E d req = (error_response 500 ''Internal server error'', d)"
    using serve_authenticated [OF assms(1,2,3)] dispatch_create [OF assms(4)] by simp
  then show ?thesis using assms(5) by (simp add: error_response_def)
next
  case (Inr x)
  obtain r d' where x: "x = (r, d')" by (cases x)
  have sv: "serve E d req = (r, d')"
    using serve_authenticated [OF assms(1,2,3)] dispatch_create [OF assms(4)] Inr x by simp
  then have "status r = 200" using assms(5) by simp
  then obtain m pv where
    g: "get_prop (member (Some rbody) ''data'') ''program_id'' = Inr pv"
    and v: "verifyProgramAccess E d (a_division_id adm) pv"
    and i: "insert_module E d pv (member (member (Some rbody) ''data'') ''module_type'')
           (or_false (member (member (Some rbody) ''data'') ''is_published'')) = Inr (m, d')"
    and r: "r = module_response m"
    using create_action_200 [of E d "a_division_id adm" "member (Some rbody) ''data''" r d']
      Inr x by blast
  have "d' = d\<lparr>program_modules := program_modules d @ [m]\<rparr>"
    using insert_module_Inr [OF i] by simp
  then show ?thesis using sv g v i r by blast
qed

text \<open>
  C10. A create that succeeds inserts exactly one module, whose \<^verbatim>\<open>is_published\<close> is what
  the store holds for \<^verbatim>\<open>data.is_published || false\<close>: false when the payload omits the
  member or gives a falsy value, and true when the payload gives \<^verbatim>\<open>true\<close>, so that a
  caller can create a module already published.
\<close>

theorem create_publish_flag:
  assumes "req_method req \<noteq> ''OPTIONS''" and "authenticate E d req = Inr adm"
    and "req_body req = Some rbody"
    and "get_prop (Some rbody) ''action'' = Inr (Some (JStr ''create''))"
    and "status (fst (serve E d req)) = 200"
  shows "\<exists>m. serve E d req = (module_response m, d\<lparr>program_modules := program_modules d @ [m]\<rparr>)
      \<and> bool_value E (or_false (member (member (Some rbody) ''data'') ''is_published''))
          = Inr (m_is_published m)
      \<and> (\<not> truthy (member (member (Some rbody) ''data'') ''is_published'') \<longrightarrow>
           \<not> m_is_published m)
      \<and> (member (member (Some rbody) ''data'') ''is_published'' = Some (JBool True) \<longrightarrow>
           m_is_published m)"
proof -
  obtain m pv where
    sv: "serve E d req = (module_response m, d\<lparr>program_modules := program_modules d @ [m]\<rparr>)"
    and i: "insert_module E d pv (member (member (Some rbody) ''data'') ''module_type'')
           (or_false (member (member (Some rbody) ''data'') ''is_published''))
          = Inr (m, d\<lparr>program_modules := program_modules d @ [m]\<rparr>)"
    using serve_create_200 [OF assms] by blast
  have b: "bool_value E (or_false (member (member (Some rbody) ''data'') ''is_published''))
          = Inr (m_is_published m)"
    using insert_module_Inr [OF i] by simp
  have f: "\<not> truthy (member (member (Some rbody) ''data'') ''is_published'') \<longrightarrow>
           \<not> m_is_published m"
    using b or_false_falsy [of "member (member (Some rbody) ''data'') ''is_published''"]
    by (auto simp: bool_value_def)
  have t: "member (member (Some rbody) ''data'') ''is_published'' = Some (JBool True) \<longrightarrow>
           m_is_published m"
    using b by (auto simp: bool_value_def or_false_def truthy_def)
  show ?thesis using sv b f t by blast
qed

lemma serve_create_farm:
  "serve env0 db0 (post farm_token (action_body ''create''
      ([(''program_id'', JStr ''prog-farm''), (''module_type'', JStr ''registration'')] @ extra)))
   = (module_response \<lparr>m_id = ''mod-new'', m_program_id = ''prog-farm'',
         m_module_type = ''registration'',
         m_is_published = b\<rparr>,
      db0\<lparr>program_modules := program_modules db0 @
        [\<lparr>m_id = ''mod-new'', m_program_id = ''prog-farm'', m_module_type = ''registration'',
          m_is_published = b\<rparr>]\<rparr>)"
  if "extra = [] \<and> \<not> b \<or> extra = [(''is_published'', JBool b)]"
proof -
  have "dispatch env0 db0 \<lparr>a_id = ''admin-1'', a_is_active = True, a_division_id = ''farmelife''\<rparr>
      (action_body ''create''
        ([(''program_id'', JStr ''prog-farm''), (''module_type'', JStr ''registration'')] @ extra))
     = Inr (module_response \<lparr>m_id = ''mod-new'', m_program_id = ''prog-farm'',
         m_module_type = ''registration'', m_is_published = b\<rparr>,
      db0\<lparr>program_modules := program_modules db0 @
        [\<lparr>m_id = ''mod-new'', m_program_id = ''prog-farm'', m_module_type = ''registration'',
          m_is_published = b\<rparr>]\<rparr>)"
    using that
    by (auto simp: dispatch_def action_body_def get_prop_def member_def create_action_def
        select_program_def verifyProgramAccess_def key_text_def single_def
        insert_module_def text_value_def bool_value_def or_false_def truthy_def
        db0_def env0_def Let_def)
  then show ?thesis
    using serve_authenticated [OF _ authenticate_farm,
        of "action_body ''create''
        ([(''program_id'', JStr ''prog-farm''), (''module_type'', JStr ''registration'')] @ extra)"
          "action_body ''create''
        ([(''program_id'', JStr ''prog-farm''), (''module_type'', JStr ''registration'')] @ extra)"]
    by (simp add: post_def)
qed

theorem create_publish_flag_witness:
  "(\<exists>m. serve env0 db0 (post farm_token (action_body ''create''
        [(''program_id'', JStr ''prog-farm''), (''module_type'', JStr ''registration'')]))
       = (module_response m, db0\<lparr>program_modules := program_modules db0 @ [m]\<rparr>)
       \<and> \<not> m_is_published m)
   \<and> (\<exists>m. serve env0 db0 (post farm_token (action_body ''create''
        [(''program_id'', JStr ''prog-farm''), (''module_type'', JStr ''registration''),
         (''is_published'', JBool True)]))
       = (module_response m, db0\<lparr>program_modules := program_modules db0 @ [m]\<rparr>)
       \<and> m_is_published m)"
proof -
  let ?b1 = "action_body ''create''
        [(''program_id'', JStr ''prog-farm''), (''module_type'', JStr ''registration'')]"
  let ?b2 = "action_body ''create''
        [(''program_id'', JStr ''prog-farm''), (''module_type'', JStr ''registration''),
         (''is_published'', JBool True)]"
  have s1: "status (fst (serve env0 db0 (post farm_token ?b1))) = 200"
    using serve_create_farm [of "[]" False] by (simp add: module_response_def)
  have s2: "status (fst (serve env0 db0 (post farm_token ?b2))) = 200"
    using serve_create_farm [of "[(''is_published'', JBool True)]" True]
    by (simp add: module_response_def)
  have f1: "\<not> truthy (member (member (Some ?b1) ''data'') ''is_published'')"
    by (simp add: action_body_def member_def get_prop_def truthy_def)
  have f2: "member (member (Some ?b2) ''data'') ''is_published'' = Some (JBool True)"
    by (simp add: action_body_def member_def get_prop_def)
  have a1: "get_prop (Some ?b1) ''action'' = Inr (Some (JStr ''create''))"
    and a2: "get_prop (Some ?b2) ''action'' = Inr (Some (JStr ''create''))"
    by (simp_all add: action_body_def get_prop_def)
  have m: "req_method (post farm_token b) \<noteq> ''OPTIONS''"
    and rb: "req_body (post farm_token b) = Some b" for b
    by (simp_all add: post_def)
  show ?thesis
    using create_publish_flag [OF m authenticate_farm rb a1 s1]
      create_publish_flag [OF m authenticate_farm rb a2 s2] f1 f2
    by blast
qed


lemma authenticate_body: "authenticate E d (r\<lparr>req_body := b\<rparr>) = authenticate E d r"
  by (simp add: authenticate_def)

lemma map_set_published:
  "map m_id (map (set_published k b) ms) = map m_id ms"
  "map m_program_id (map (set_published k b) ms) = map m_program_id ms"
  "map m_module_type (map (set_published k b) ms) = map m_module_type ms"
  by (induction ms) (simp_all add: set_published_def)

lemma update_module_frame:
  assumes "update_module E d v mid = Inr (m, d')"
  shows "admins d' = admins d \<and> programs d' = programs d
    \<and> map m_id (program_modules d') = map m_id (program_modules d)
    \<and> map m_program_id (program_modules d') = map m_program_id (program_modules d)
    \<and> map m_module_type (program_modules d') = map m_module_type (program_modules d)
    \<and> (v = None \<longrightarrow> d' = d)"
  using assms
  by (auto simp: update_module_def set_published_def split: option.splits sum.splits)

lemma update_action_frame:
  assumes "update_action E d dv dat = Inr (r, d')"
  shows "admins d' = admins d \<and> programs d' = programs d
    \<and> map m_id (program_modules d') = map m_id (program_modules d)
    \<and> map m_program_id (program_modules d') = map m_program_id (program_modules d)
    \<and> map m_module_type (program_modules d') = map m_module_type (program_modules d)
    \<and> (member dat ''is_published'' = None \<longrightarrow> d' = d)"
proof (cases "\<exists>mid m. get_prop dat ''id'' = Inr mid \<and> select_module E d mid = Inr m
    \<and> verifyProgramAccess E d dv (Some (JStr (m_program_id m)))
    \<and> (\<exists>m'. update_module E d (member dat ''is_published'') mid = Inr (m', d'))")
  case True
  then show ?thesis using update_module_frame by blast
next
  case False
  then have "d' = d"
    using assms by (auto simp: update_action_def split: sum.splits if_splits)
  then show ?thesis by simp
qed

lemma serve_update_frame:
  assumes "req_method req \<noteq> ''OPTIONS''" and "authenticate E d req = Inr adm"
    and "req_body req = Some rbody"
    and "get_prop (Some rbody) ''action'' = Inr (Some (JStr ''update''))"
  shows "admins (snd (serve E d req)) = admins d \<and> programs (snd (serve E d req)) = programs d
    \<and> map m_id (program_modules (snd (serve E d req))) = map m_id (program_modules d)
    \<and> map m_program_id (program_modules (snd (serve E d req))) = map m_program_id (program_modules d)
    \<and> map m_module_type (program_modules (snd (serve E d req))) = map m_module_type (program_modules d)
    \<and> (member (member (Some rbody) ''data'') ''is_published'' = None \<longrightarrow> snd (serve E d req) = d)"
proof (cases "update_action E d (a_division_id adm) (member (Some rbody) ''data'')")
  case (Inl e)
  then have "serve E d req = (error_response 500 ''Internal server error'', d)"
    using serve_authenticated [OF assms(1,2,3)] dispatch_update [OF assms(4)] by simp
  then show ?thesis by simp
next
  case (Inr x)
  obtain r d' where x: "x = (r, d')" by (cases x)
  have "serve E d req = (r, d')"
    using serve_authenticated [OF assms(1,2,3)] dispatch_update [OF assms(4)] Inr x by simp
  then show ?thesis using update_action_frame [of E d "a_division_id adm" _ r d'] Inr x by simp
qed

lemma module_response_inj: "module_response m = module_response m' \<Longrightarrow> m = m'"
  by (cases m; cases m') (simp add: module_response_def module_json_def)

lemma filter_fresh:
  assumes "k \<notin> m_id ` set ms"
  shows "filter (\<lambda>x. m_id x = k) ms = []"
    and "filter (\<lambda>x. m_id x = k) (map (set_published k b) ms) = []"
  using assms by (induction ms) (auto simp: set_published_def)

lemma update_after_create:
  assumes v: "verifyProgramAccess E d dv (Some (JStr (m_program_id m)))"
    and fresh: "m_id m \<notin> m_id ` set (program_modules d)"
    and d1: "d1 = d\<lparr>program_modules := program_modules d @ [m]\<rparr>"
    and c: "constraint E d1 (map (set_published (m_id m) True) (program_modules d1)) = None"
  shows "update_action E d1 dv (Some (JObj [(''id'', JStr (m_id m)), (''is_published'', JBool True)]))
     = Inr (module_response (m\<lparr>m_is_published := True\<rparr>),
            d1\<lparr>program_modules := map (set_published (m_id m) True) (program_modules d1)\<rparr>)"
    and "select_module E
           (d1\<lparr>program_modules := map (set_published (m_id m) True) (program_modules d1)\<rparr>)
           (Some (JStr (m_id m))) = Inr (m\<lparr>m_is_published := True\<rparr>)"
proof -
  have s1: "select_module E d1 (Some (JStr (m_id m))) = Inr m"
    using d1 filter_fresh(1) [OF fresh]
    by (simp add: select_module_def key_text_def single_def)
  have v1: "verifyProgramAccess E d1 dv (Some (JStr (m_program_id m)))"
    using v d1 verifyProgramAccess_programs [of d1 d E dv] by simp
  show s2: "select_module E
           (d1\<lparr>program_modules := map (set_published (m_id m) True) (program_modules d1)\<rparr>)
           (Some (JStr (m_id m))) = Inr (m\<lparr>m_is_published := True\<rparr>)"
    using d1 filter_fresh(2) [OF fresh, of True]
    by (simp add: select_module_def key_text_def single_def set_published_def)
  have "update_module E d1 (Some (JBool True)) (Some (JStr (m_id m)))
      = Inr (m\<lparr>m_is_published := True\<rparr>,
             d1\<lparr>program_modules := map (set_published (m_id m) True) (program_modules d1)\<rparr>)"
    using c s2 by (simp add: update_module_def bool_value_def key_text_def)
  then show "update_action E d1 dv
       (Some (JObj [(''id'', JStr (m_id m)), (''is_published'', JBool True)]))
     = Inr (module_response (m\<lparr>m_is_published := True\<rparr>),
            d1\<lparr>program_modules := map (set_published (m_id m) True) (program_modules d1)\<rparr>)"
    using s1 v1 by (simp add: update_action_def get_prop_def member_def)
qed


text \<open>
  C8. An authenticated update, whatever its outcome, leaves the admins and the programs as
  they were and keeps the id, the program and the type of every module; when the payload
  has no \<^verbatim>\<open>is_published\<close> the store is unchanged. After a create that succeeded (with a
  fresh id), the same caller's update with \<^verbatim>\<open>is_published: true\<close> of the created module,
  if the store accepts it, returns the module published, and a read of that id then
  yields it with \<^verbatim>\<open>is_published\<close> true and its id, program and type as created.
\<close>

theorem update_mutates_only_is_published:
  assumes "req_method r \<noteq> ''OPTIONS''" and "authenticate E d r = Inr adm"
  shows "(\<forall>ubody. get_prop (Some ubody) ''action'' = Inr (Some (JStr ''update'')) \<longrightarrow>
      admins (snd (serve E d (r\<lparr>req_body := Some ubody\<rparr>))) = admins d
      \<and> programs (snd (serve E d (r\<lparr>req_body := Some ubody\<rparr>))) = programs d
      \<and> map m_id (program_modules (snd (serve E d (r\<lparr>req_body := Some ubody\<rparr>))))
          = map m_id (program_modules d)
      \<and> map m_program_id (program_modules (snd (serve E d (r\<lparr>req_body := Some ubody\<rparr>))))
          = map m_program_id (program_modules d)
      \<and> map m_module_type (program_modules (snd (serve E d (r\<lparr>req_body := Some ubody\<rparr>))))
          = map m_module_type (program_modules d)
      \<and> (member (member (Some ubody) ''data'') ''is_published'' = None \<longrightarrow>
           snd (serve E d (r\<lparr>req_body := Some ubody\<rparr>)) = d))
    \<and> (\<forall>cbody pid m d1.
         get_prop (Some cbody) ''action'' = Inr (Some (JStr ''create''))
         \<and> get_prop (member (Some cbody) ''data'') ''program_id'' = Inr (Some (JStr pid))
         \<and> serve E d (r\<lparr>req_body := Some cbody\<rparr>) = (module_response m, d1)
         \<and> m_id m \<notin> m_id ` set (program_modules d)
         \<and> constraint E d1 (map (set_published (m_id m) True) (program_modules d1)) = None
         \<longrightarrow>
           serve E d1 (r\<lparr>req_body := Some (action_body ''update''
               [(''id'', JStr (m_id m)), (''is_published'', JBool True)])\<rparr>)
             = (module_response (m\<lparr>m_is_published := True\<rparr>),
                d1\<lparr>program_modules := map (set_published (m_id m) True) (program_modules d1)\<rparr>)
           \<and> select_module E
                (d1\<lparr>program_modules := map (set_published (m_id m) True) (program_modules d1)\<rparr>)
                (Some (JStr (m_id m))) = Inr (m\<lparr>m_is_published := True\<rparr>)
           \<and> m_is_published (m\<lparr>m_is_published := True\<rparr>)
           \<and> m_id (m\<lparr>m_is_published := True\<rparr>) = m_id m
           \<and> m_program_id (m\<lparr>m_is_published := True\<rparr>) = m_program_id m
           \<and> m_module_type (m\<lparr>m_is_published := True\<rparr>) = m_module_type m)"
proof (intro conjI allI impI)
  fix cbody pid m d1
  assume h: "get_prop (Some cbody) ''action'' = Inr (Some (JStr ''create''))
         \<and> get_prop (member (Some cbody) ''data'') ''program_id'' = Inr (Some (JStr pid))
         \<and> serve E d (r\<lparr>req_body := Some cbody\<rparr>) = (module_response m, d1)
         \<and> m_id m \<notin> m_id ` set (program_modules d)
         \<and> constraint E d1 (map (set_published (m_id m) True) (program_modules d1)) = None"
  let ?rc = "r\<lparr>req_body := Some cbody\<rparr>"
  let ?ub = "action_body ''update'' [(''id'', JStr (m_id m)), (''is_published'', JBool True)]"
  let ?ru = "r\<lparr>req_body := Some ?ub\<rparr>"
  let ?d2 = "d1\<lparr>program_modules := map (set_published (m_id m) True) (program_modules d1)\<rparr>"
  have mc: "req_method ?rc \<noteq> ''OPTIONS''" and ac: "authenticate E d ?rc = Inr adm"
    and bc: "req_body ?rc = Some cbody"
    using assms by (simp_all add: authenticate_body)
  have st: "status (fst (serve E d ?rc)) = 200" using h by (simp add: module_response_def)
  obtain m' pv where
    sv: "serve E d ?rc = (module_response m', d\<lparr>program_modules := program_modules d @ [m']\<rparr>)"
    and g: "get_prop (member (Some cbody) ''data'') ''program_id'' = Inr pv"
    and v: "verifyProgramAccess E d (a_division_id adm) pv"
    and i: "insert_module E d pv (member (member (Some cbody) ''data'') ''module_type'')
           (or_false (member (member (Some cbody) ''data'') ''is_published''))
          = Inr (m', d\<lparr>program_modules := program_modules d @ [m']\<rparr>)"
    using serve_create_200 [OF mc ac bc _ st] h by blast
  have mm: "m' = m" using sv h module_response_inj by simp
  have d1: "d1 = d\<lparr>program_modules := program_modules d @ [m]\<rparr>" using sv h mm by simp
  have pv: "pv = Some (JStr pid)" using g h by simp
  have "text_value E pv = Inr (m_program_id m)" using insert_module_Inr [OF i] mm by simp
  then have "m_program_id m = pid" using pv by (simp add: text_value_def)
  then have v': "verifyProgramAccess E d (a_division_id adm) (Some (JStr (m_program_id m)))"
    using v pv by simp
  have fresh: "m_id m \<notin> m_id ` set (program_modules d)" and c: "constraint E d1
      (map (set_published (m_id m) True) (program_modules d1)) = None"
    using h by simp_all
  have ua: "update_action E d1 (a_division_id adm)
       (Some (JObj [(''id'', JStr (m_id m)), (''is_published'', JBool True)]))
     = Inr (module_response (m\<lparr>m_is_published := True\<rparr>), ?d2)"
    by (rule update_after_create(1) [OF v' fresh d1 c])
  have mu: "req_method ?ru \<noteq> ''OPTIONS''" and bu: "req_body ?ru = Some ?ub"
    using assms by simp_all
  have au: "authenticate E d1 ?ru = Inr adm"
    using authenticate_admins [of d1 d E ?ru] d1 assms(2) by (simp add: authenticate_body)
  have "dispatch E d1 adm ?ub = Inr (module_response (m\<lparr>m_is_published := True\<rparr>), ?d2)"
    using ua by (simp add: dispatch_def action_body_def get_prop_def member_def)
  then show "serve E d1 ?ru = (module_response (m\<lparr>m_is_published := True\<rparr>), ?d2)"
    using serve_authenticated [OF mu au bu] by simp
  show "select_module E ?d2 (Some (JStr (m_id m))) = Inr (m\<lparr>m_is_published := True\<rparr>)"
    by (rule update_after_create(2) [OF v' fresh d1 c])
next
  fix ubody
  assume u: "get_prop (Some ubody) ''action'' = Inr (Some (JStr ''update''))"
  let ?ru = "r\<lparr>req_body := Some ubody\<rparr>"
  have mu: "req_method ?ru \<noteq> ''OPTIONS''" and au: "authenticate E d ?ru = Inr adm"
    and bu: "req_body ?ru = Some ubody"
    using assms by (simp_all add: authenticate_body)
  note f = serve_update_frame [OF mu au bu u]
  show "admins (snd (serve E d ?ru)) = admins d" using f by simp
  show "programs (snd (serve E d ?ru)) = programs d" using f by simp
  show "map m_id (program_modules (snd (serve E d ?ru))) = map m_id (program_modules d)"
    using f by simp
  show "map m_program_id (program_modules (snd (serve E d ?ru)))
      = map m_program_id (program_modules d)"
    using f by simp
  show "map m_module_type (program_modules (snd (serve E d ?ru)))
      = map m_module_type (program_modules d)"
    using f by simp
  show "snd (serve E d ?ru) = d" if "member (member (Some ubody) ''data'') ''is_published'' = None"
    using f that by simp
qed simp_all


theorem update_mutates_only_is_published_witness:
  "serve env0 db0 (post farm_token (action_body ''create''
       [(''program_id'', JStr ''prog-farm''), (''module_type'', JStr ''registration'')]))
     = (module_response new_module, db0\<lparr>program_modules := program_modules db0 @ [new_module]\<rparr>)
   \<and> serve env0 (db0\<lparr>program_modules := program_modules db0 @ [new_module]\<rparr>)
       (post farm_token (action_body ''update''
          [(''id'', JStr ''mod-new''), (''is_published'', JBool True)]))
     = (module_response (new_module\<lparr>m_is_published := True\<rparr>),
        db0\<lparr>program_modules := program_modules db0 @ [new_module\<lparr>m_is_published := True\<rparr>]\<rparr>)
   \<and> select_module env0
        (db0\<lparr>program_modules := program_modules db0 @ [new_module\<lparr>m_is_published := True\<rparr>]\<rparr>)
        (Some (JStr ''mod-new'')) = Inr (new_module\<lparr>m_is_published := True\<rparr>)
   \<and> snd (serve env0 db0 (post farm_token (action_body ''update'' [(''id'', JStr ''mod-1'')])))
     = db0"
proof -
  let ?r = "post farm_token JNull"
  let ?cb = "action_body ''create''
       [(''program_id'', JStr ''prog-farm''), (''module_type'', JStr ''registration'')]"
  let ?d1 = "db0\<lparr>program_modules := program_modules db0 @ [new_module]\<rparr>"
  have rm: "req_method ?r \<noteq> ''OPTIONS''" by (simp add: post_def)
  have rb: "?r\<lparr>req_body := Some b\<rparr> = post farm_token b" for b by (simp add: post_def)
  note T = update_mutates_only_is_published [OF rm authenticate_farm]
  have c: "serve env0 db0 (post farm_token ?cb) = (module_response new_module, ?d1)"
    using serve_create_farm [of "[]" False] by (simp add: new_module_def)
  have p: "get_prop (Some ?cb) ''action'' = Inr (Some (JStr ''create''))
      \<and> get_prop (member (Some ?cb) ''data'') ''program_id'' = Inr (Some (JStr ''prog-farm''))
      \<and> serve env0 db0 (?r\<lparr>req_body := Some ?cb\<rparr>) = (module_response new_module, ?d1)
      \<and> m_id new_module \<notin> m_id ` set (program_modules db0)
      \<and> constraint env0 ?d1 (map (set_published (m_id new_module) True) (program_modules ?d1))
          = None"
    using c
    by (simp add: rb action_body_def get_prop_def member_def new_module_def db0_def env0_def
        set_published_def)
  have "serve env0 ?d1 (?r\<lparr>req_body := Some (action_body ''update''
               [(''id'', JStr (m_id new_module)), (''is_published'', JBool True)])\<rparr>)
          = (module_response (new_module\<lparr>m_is_published := True\<rparr>),
             ?d1\<lparr>program_modules :=
                  map (set_published (m_id new_module) True) (program_modules ?d1)\<rparr>)
        \<and> select_module env0
             (?d1\<lparr>program_modules :=
                  map (set_published (m_id new_module) True) (program_modules ?d1)\<rparr>)
             (Some (JStr (m_id new_module))) = Inr (new_module\<lparr>m_is_published := True\<rparr>)"
    using T [THEN conjunct2, rule_format, OF p] by blast
  then have u: "serve env0 ?d1 (post farm_token (action_body ''update''
          [(''id'', JStr ''mod-new''), (''is_published'', JBool True)]))
     = (module_response (new_module\<lparr>m_is_published := True\<rparr>),
        db0\<lparr>program_modules := program_modules db0 @ [new_module\<lparr>m_is_published := True\<rparr>]\<rparr>)
   \<and> select_module env0
        (db0\<lparr>program_modules := program_modules db0 @ [new_module\<lparr>m_is_published := True\<rparr>]\<rparr>)
        (Some (JStr ''mod-new'')) = Inr (new_module\<lparr>m_is_published := True\<rparr>)"
    by (simp add: rb new_module_def db0_def set_published_def)
  have "get_prop (Some (action_body ''update'' [(''id'', JStr ''mod-1'')])) ''action''
      = Inr (Some (JStr ''update''))
    \<and> member (member (Some (action_body ''update'' [(''id'', JStr ''mod-1'')])) ''data'')
        ''is_published'' = None"
    by (simp add: action_body_def get_prop_def member_def)
  then have n: "snd (serve env0 db0 (post farm_token
      (action_body ''update'' [(''id'', JStr ''mod-1'')]))) = db0"
    using T [THEN conjunct1, rule_format, of "action_body ''update'' [(''id'', JStr ''mod-1'')]"]
    by (simp add: rb)
  show ?thesis using c u n by simp
qed

end
